theory Spec2Isabelle
  imports Complex_Main "HOL-Library.Sublist" "HOL-Library.AList"
begin

section \<open>Goal store of the goal analyzer\<close>

text \<open>
  A goal is the triple \<open>(goal, method, reasoning)\<close> that \<^verbatim>\<open>GoalAnalyzer.goals\<close> stores.
  The three components are Python strings, lists of characters; the goal store is
  modelled for any type \<open>'c\<close> of characters.
\<close>

type_synonym 'c goal = "'c list \<times> 'c list \<times> 'c list"

definition max_goals :: nat where
  "max_goals = 3"

text \<open>
  \<^verbatim>\<open>GoalAnalyzer._calculate_similarity\<close>: overlap of the two character sets divided by the
  size of their union, and 0 when both strings are empty. The quotient is a Python float;
  it is modelled as a real number. Both cardinalities are bounded by the number of code
  points, far below the size at which the rounded quotient could compare differently
  with the constant 0.7 than the exact one.
\<close>

definition calculate_similarity :: "'c list \<Rightarrow> 'c list \<Rightarrow> real" where
  "calculate_similarity goal1 goal2 =
     (let words1 = set goal1;
          words2 = set goal2;
          overlap = card (words1 \<inter> words2);
          total = card (words1 \<union> words2)
      in if total > 0 then real overlap / real total else 0)"

text \<open>
  The loop of \<^verbatim>\<open>_update_goals\<close> over \<^verbatim>\<open>enumerate(self.goals)\<close>: the index of the first
  existing goal whose similarity with the new goal is above the threshold.
\<close>

fun first_similar :: "'c list \<Rightarrow> 'c goal list \<Rightarrow> nat option" where
  "first_similar new_goal [] = None"
| "first_similar new_goal ((existing_goal, m, r) # rest) =
     (if calculate_similarity new_goal existing_goal > 0.7 then Some 0
      else map_option Suc (first_similar new_goal rest))"

text \<open>\<^verbatim>\<open>list.pop(i)\<close> for an index in range: the list without position \<open>i\<close>.\<close>

definition pop_at :: "nat \<Rightarrow> 'a list \<Rightarrow> 'a list" where
  "pop_at i xs = take i xs @ drop (Suc i) xs"

text \<open>
  \<^verbatim>\<open>GoalAnalyzer._update_goals\<close>. On a similar goal at index \<open>i\<close>: overwrite the entry,
  pop it and insert it at the front, then return. Otherwise insert the new triple at the
  front and pop the last entry when the list is longer than \<open>max_goals\<close>.
\<close>

definition update_goals ::
  "'c goal list \<Rightarrow> 'c list \<Rightarrow> 'c list \<Rightarrow> 'c list \<Rightarrow> 'c goal list" where
  "update_goals goals new_goal method reasoning =
     (case first_similar new_goal goals of
        Some i \<Rightarrow>
          (let goals1 = goals[i := (new_goal, method, reasoning)]
           in (goals1 ! i) # pop_at i goals1)
      | None \<Rightarrow>
          (let goals1 = (new_goal, method, reasoning) # goals
           in if length goals1 > max_goals then butlast goals1 else goals1))"


section \<open>Python values, exceptions and logging\<close>

text \<open>
  The Python values that cross the boundary with the collaborators (JSON items, message
  dictionaries, attribute values). A dictionary is an association list with string keys;
  a float is a real number.
\<close>

datatype pyval =
    PyNone
  | PyBool bool
  | PyInt int
  | PyFloat real
  | PyStr string
  | PyList "pyval list"
  | PyDict "(string \<times> pyval) list"

text \<open>The exceptions the modelled code can meet; \<open>CollaboratorError\<close> is any exception
  raised inside a collaborator whose code is not part of this file.\<close>

datatype py_error = KeyError | TypeError | AttributeError | ValueError | CollaboratorError

text \<open>Truth value of a Python object, as tested by \<^verbatim>\<open>if x\<close> and \<^verbatim>\<open>not x\<close>.\<close>

fun truthy :: "pyval \<Rightarrow> bool" where
  "truthy PyNone = False"
| "truthy (PyBool b) = b"
| "truthy (PyInt i) = (i \<noteq> 0)"
| "truthy (PyFloat x) = (x \<noteq> 0)"
| "truthy (PyStr s) = (s \<noteq> [])"
| "truthy (PyList xs) = (xs \<noteq> [])"
| "truthy (PyDict kv) = (kv \<noteq> [])"

text \<open>\<^verbatim>\<open>d.get(k, default)\<close> and \<^verbatim>\<open>d[k]\<close> on a dictionary.\<close>

definition dict_get :: "(string \<times> pyval) list \<Rightarrow> string \<Rightarrow> pyval \<Rightarrow> pyval" where
  "dict_get d k dflt = (case map_of d k of None \<Rightarrow> dflt | Some v \<Rightarrow> v)"

definition dict_item :: "(string \<times> pyval) list \<Rightarrow> string \<Rightarrow> py_error + pyval" where
  "dict_item d k = (case map_of d k of None \<Rightarrow> Inl KeyError | Some v \<Rightarrow> Inr v)"

text \<open>\<^verbatim>\<open>t - x\<close> for a float \<open>t\<close>: defined on numbers (a bool counts as 0 or 1), a
  \<^verbatim>\<open>TypeError\<close> on everything else.\<close>

fun float_sub :: "real \<Rightarrow> pyval \<Rightarrow> py_error + real" where
  "float_sub t (PyFloat x) = Inr (t - x)"
| "float_sub t (PyInt i) = Inr (t - real_of_int i)"
| "float_sub t (PyBool b) = Inr (t - (if b then 1 else 0))"
| "float_sub t PyNone = Inl TypeError"
| "float_sub t (PyStr s) = Inl TypeError"
| "float_sub t (PyList xs) = Inl TypeError"
| "float_sub t (PyDict kv) = Inl TypeError"

text \<open>Lists and dictionaries cannot be members of a set; \<^verbatim>\<open>set.add\<close> raises on them.\<close>

fun hashable :: "pyval \<Rightarrow> bool" where
  "hashable (PyList xs) = False"
| "hashable (PyDict kv) = False"
| "hashable v = True"

text \<open>\<^verbatim>\<open>x[:30]\<close> is defined on strings and lists and raises on the other values.\<close>

fun sliceable :: "pyval \<Rightarrow> bool" where
  "sliceable (PyStr s) = True"
| "sliceable (PyList xs) = True"
| "sliceable v = False"

text \<open>A logger call is recorded by its level and the source line of the call.\<close>

datatype log_level = DEBUG | INFO | WARNING | ERROR

type_synonym log_entry = "log_level \<times> nat"

section \<open>Action history\<close>

text \<open>One entry of \<^verbatim>\<open>Conversation.action_history\<close>: the keys \<open>action\<close>, \<open>reason\<close>, \<open>time\<close>.\<close>

record action_entry =
  entry_action :: string
  entry_reason :: pyval
  entry_time :: string

text \<open>The slice \<^verbatim>\<open>xs[-n:]\<close> for a positive \<open>n\<close>.\<close>

definition last_n :: "nat \<Rightarrow> 'a list \<Rightarrow> 'a list" where
  "last_n n xs = drop (length xs - n) xs"

text \<open>
  The first statements of \<^verbatim>\<open>Conversation._handle_action\<close>: append the entry, then keep
  \<^verbatim>\<open>action_history[-10:]\<close> when the list is longer than 10.
\<close>

definition record_action :: "action_entry list \<Rightarrow> action_entry \<Rightarrow> action_entry list" where
  "record_action action_history entry =
     (let h = action_history @ [entry]
      in if length h > 10 then last_n 10 h else h)"

section \<open>DecisionInfo\<close>

text \<open>
  The fields of the dataclass \<^verbatim>\<open>DecisionInfo\<close>. The time, content and sender fields are
  assigned from message dictionaries without a check of their type, so they hold Python
  values; \<open>PyNone\<close> is the default \<^verbatim>\<open>None\<close>. The cold-chat duration is only ever
  assigned a float. The set of active users is a set of the model's values.
\<close>

record decision_info =
  last_message_time :: pyval
  last_message_content :: pyval
  last_message_sender :: pyval
  new_messages_count :: int
  unprocessed_messages :: "pyval list"
  is_cold_chat :: bool
  cold_chat_duration :: real
  last_bot_speak_time :: pyval
  last_user_speak_time :: pyval
  active_users :: "pyval set"
  bot_id :: string

definition DecisionInfo :: decision_info where
  "DecisionInfo =
     \<lparr>last_message_time = PyNone, last_message_content = PyNone,
      last_message_sender = PyNone, new_messages_count = 0, unprocessed_messages = [],
      is_cold_chat = False, cold_chat_duration = 0,
      last_bot_speak_time = PyNone, last_user_speak_time = PyNone,
      active_users = {}, bot_id = ''''\<rparr>"

text \<open>The two attributes of \<^verbatim>\<open>UserInfo\<close> that this file reads. The class and its
  \<^verbatim>\<open>from_dict\<close> live in another module; \<^verbatim>\<open>from_dict\<close> is a parameter of the model.\<close>

record user_info =
  user_id :: pyval
  user_nickname :: pyval

text \<open>
  \<^verbatim>\<open>DecisionInfo.update_from_message\<close>. The statements run in the source's order and an
  exception leaves the assignments made before it in place, so the result is the
  DecisionInfo reached together with the exception raised, if any.
\<close>

definition update_from_message ::
  "(pyval \<Rightarrow> py_error + user_info) \<Rightarrow> decision_info \<Rightarrow> (string \<times> pyval) list
     \<Rightarrow> decision_info \<times> py_error option" where
  "update_from_message from_dict di message =
     (case dict_item message ''time'' of
        Inl e \<Rightarrow> (di, Some e)
      | Inr t \<Rightarrow>
          (let di1 = di\<lparr>last_message_time := t,
                        last_message_content :=
                          dict_get message ''processed_plain_text'' (PyStr '''')\<rparr>
           in case from_dict (dict_get message ''user_info'' (PyDict [])) of
                Inl e \<Rightarrow> (di1, Some e)
              | Inr ui \<Rightarrow>
                  (let di2 = di1\<lparr>last_message_sender := user_id ui\<rparr>
                   in if user_id ui = PyStr (bot_id di2) then
                        (di2\<lparr>last_bot_speak_time := t,
                             new_messages_count := new_messages_count di2 + 1,
                             unprocessed_messages :=
                               unprocessed_messages di2 @ [PyDict message]\<rparr>, None)
                      else
                        (let di3 = di2\<lparr>last_user_speak_time := t\<rparr>
                         in if hashable (user_id ui) then
                              (di3\<lparr>active_users := insert (user_id ui) (active_users di3),
                                   new_messages_count := new_messages_count di3 + 1,
                                   unprocessed_messages :=
                                     unprocessed_messages di3 @ [PyDict message]\<rparr>, None)
                            else (di3, Some TypeError)))))"

text \<open>\<^verbatim>\<open>DecisionInfo.update_cold_chat_status\<close>.\<close>

definition update_cold_chat_status ::
  "decision_info \<Rightarrow> bool \<Rightarrow> real \<Rightarrow> decision_info \<times> py_error option" where
  "update_cold_chat_status di is_cold current_time =
     (let di1 = di\<lparr>is_cold_chat := is_cold\<rparr>
      in if is_cold \<and> truthy (last_message_time di1) then
           (case float_sub current_time (last_message_time di1) of
              Inl e \<Rightarrow> (di1, Some e)
            | Inr d \<Rightarrow> (di1\<lparr>cold_chat_duration := d\<rparr>, None))
         else (di1, None))"

text \<open>
  The derived queries. The first argument is the value of \<^verbatim>\<open>time.time()\<close> at the call.
  The guard is \<^verbatim>\<open>if not self.<field>\<close>, the truth value of the field.
  \<^verbatim>\<open>get_active_duration\<close> returns a float; the two response times return
  \<^verbatim>\<open>Optional[float]\<close>, with \<open>None\<close> for Python's \<^verbatim>\<open>None\<close>.
\<close>

definition get_active_duration :: "real \<Rightarrow> decision_info \<Rightarrow> py_error + real" where
  "get_active_duration now di =
     (if \<not> truthy (last_message_time di) then Inr 0
      else float_sub now (last_message_time di))"

definition get_user_response_time :: "real \<Rightarrow> decision_info \<Rightarrow> py_error + real option" where
  "get_user_response_time now di =
     (if \<not> truthy (last_user_speak_time di) then Inr None
      else map_sum id Some (float_sub now (last_user_speak_time di)))"

definition get_bot_response_time :: "real \<Rightarrow> decision_info \<Rightarrow> py_error + real option" where
  "get_bot_response_time now di =
     (if \<not> truthy (last_bot_speak_time di) then Inr None
      else map_sum id Some (float_sub now (last_bot_speak_time di)))"

text \<open>\<^verbatim>\<open>DecisionInfo.clear_unprocessed_messages\<close>.\<close>

definition clear_unprocessed_messages :: "decision_info \<Rightarrow> decision_info" where
  "clear_unprocessed_messages di = di\<lparr>unprocessed_messages := [], new_messages_count := 0\<rparr>"

section \<open>Notification handler\<close>

text \<open>
  A notification as \<^verbatim>\<open>handle_notification\<close> reads it: its \<open>type\<close> and its \<open>data\<close>
  attribute, \<open>None\<close> when the object has no such attribute. The notification itself may
  be \<^verbatim>\<open>None\<close>. Of the notification types only the two tested here are named.
\<close>

datatype NotificationType = NEW_MESSAGE | COLD_CHAT | OTHER_TYPE

record notification =
  n_type :: NotificationType
  n_data :: "pyval option"

text \<open>What the handler can change: the DecisionInfo it shares with the conversation, its
  log, and the number of \<^verbatim>\<open>trigger_update\<close> calls it made on the chat observer.\<close>

record handler_world =
  decision :: decision_info
  handler_log :: "log_entry list"
  triggered :: nat

definition log_to :: "handler_world \<Rightarrow> log_entry \<Rightarrow> handler_world" where
  "log_to w l = w\<lparr>handler_log := handler_log w @ [l]\<rparr>"

text \<open>
  The branch for \<^verbatim>\<open>NotificationType.NEW_MESSAGE\<close>. \<open>trigger_update\<close> is the outcome of
  the observer's \<^verbatim>\<open>trigger_update()\<close>: the exception it raises, if any. The result's
  exception is one that leaves the branch uncaught.
\<close>

definition handle_new_message ::
  "(pyval \<Rightarrow> py_error + user_info) \<Rightarrow> py_error option \<Rightarrow> handler_world \<Rightarrow> pyval
     \<Rightarrow> handler_world \<times> py_error option" where
  "handle_new_message from_dict trigger_update w message =
     (case message of
        PyDict m \<Rightarrow>
          (let content = dict_get m ''content'' (PyStr '''')
           in if truthy content \<and> \<not> sliceable content then (w, Some TypeError)
              else
                (let w1 = log_to w (INFO, 705)
                 in case update_from_message from_dict (decision w1) m of
                      (di, Some e) \<Rightarrow> (log_to (w1\<lparr>decision := di\<rparr>) (ERROR, 711), None)
                    | (di, None) \<Rightarrow>
                        (let w2 = w1\<lparr>decision := di\<rparr>
                         in case trigger_update of
                              Some e \<Rightarrow> (w2, Some e)
                            | None \<Rightarrow> (w2\<lparr>triggered := triggered w2 + 1\<rparr>, None))))
      | _ \<Rightarrow> (log_to w (ERROR, 701), None))"

text \<open>The branch for \<^verbatim>\<open>NotificationType.COLD_CHAT\<close>; its body is one \<^verbatim>\<open>try\<close> whose
  handler logs and returns. \<open>now\<close> is the value of \<^verbatim>\<open>time.time()\<close>.\<close>

definition handle_cold_chat :: "real \<Rightarrow> handler_world \<Rightarrow> pyval \<Rightarrow> handler_world" where
  "handle_cold_chat now w d =
     (case d of
        PyDict m \<Rightarrow>
          (let is_cold = truthy (dict_get m ''is_cold'' (PyBool False))
           in case update_cold_chat_status (decision w) is_cold now of
                (di, Some e) \<Rightarrow> log_to (w\<lparr>decision := di\<rparr>) (ERROR, 729)
              | (di, None) \<Rightarrow>
                  log_to (w\<lparr>decision := di\<rparr>) (if is_cold then (INFO, 725) else (INFO, 727)))
      | _ \<Rightarrow> log_to w (ERROR, 729))"

text \<open>
  \<^verbatim>\<open>PFCNotificationHandler.handle_notification\<close>: the guarded body, and the outer
  \<^verbatim>\<open>except Exception\<close> that logs three lines. The second component of the result is the
  exception that reaches the caller.
\<close>

definition handle_notification_body ::
  "(pyval \<Rightarrow> py_error + user_info) \<Rightarrow> py_error option \<Rightarrow> real \<Rightarrow> handler_world
     \<Rightarrow> notification option \<Rightarrow> handler_world \<times> py_error option" where
  "handle_notification_body from_dict trigger_update now w n =
     (case n of
        None \<Rightarrow> (log_to w (ERROR, 694), None)
      | Some nt \<Rightarrow>
          (case n_data nt of
             None \<Rightarrow> (log_to w (ERROR, 694), None)
           | Some PyNone \<Rightarrow> (log_to w (ERROR, 694), None)
           | Some d \<Rightarrow>
               (case n_type nt of
                  NEW_MESSAGE \<Rightarrow> handle_new_message from_dict trigger_update w d
                | COLD_CHAT \<Rightarrow> (handle_cold_chat now w d, None)
                | OTHER_TYPE \<Rightarrow> (w, None))))"

definition handle_notification ::
  "(pyval \<Rightarrow> py_error + user_info) \<Rightarrow> py_error option \<Rightarrow> real \<Rightarrow> handler_world
     \<Rightarrow> notification option \<Rightarrow> handler_world \<times> py_error option" where
  "handle_notification from_dict trigger_update now w n =
     (case handle_notification_body from_dict trigger_update now w n of
        (w1, None) \<Rightarrow> (w1, None)
      | (w1, Some e) \<Rightarrow>
          (log_to (log_to (log_to w1 (ERROR, 733)) (ERROR, 735)) (ERROR, 736), None))"

section \<open>Waiter\<close>

text \<open>
  The loop of \<^verbatim>\<open>Waiter.wait\<close> under a test clock. \<open>now\<close> is the reading of
  \<^verbatim>\<open>time.time()\<close>; it stands still while the body runs and \<^verbatim>\<open>asyncio.sleep(1)\<close> moves it
  on by 1 plus \<open>lag k\<close>, the time by which the \<open>k\<close>-th sleep overruns. \<open>new_message_after k t\<close>
  is the answer of the chat observer's \<^verbatim>\<open>new_message_after(t)\<close> at the \<open>k\<close>-th poll.
  The loop is \<^verbatim>\<open>while True\<close>; a run that never returns has the value \<open>None\<close>.
\<close>

partial_function (option) wait_loop ::
  "(nat \<Rightarrow> real \<Rightarrow> bool) \<Rightarrow> (nat \<Rightarrow> real) \<Rightarrow> real \<Rightarrow> nat \<Rightarrow> real \<Rightarrow> bool option" where
  "wait_loop new_message_after lag wait_start_time k now =
     (if new_message_after k wait_start_time then Some False
      else if now - wait_start_time > 300 then Some True
      else wait_loop new_message_after lag wait_start_time (Suc k) (now + 1 + lag k))"

text \<open>The attribute of the chat observer that \<^verbatim>\<open>wait\<close> assigns.\<close>

record observer =
  waiting_start_time :: "real option"

text \<open>\<^verbatim>\<open>Waiter.wait\<close>: the result is the returned flag and the observer as it was left.\<close>

definition wait ::
  "(nat \<Rightarrow> real \<Rightarrow> bool) \<Rightarrow> (nat \<Rightarrow> real) \<Rightarrow> real \<Rightarrow> observer \<Rightarrow> (bool \<times> observer) option" where
  "wait new_message_after lag now obs =
     (let wait_start_time = now;
          obs1 = obs\<lparr>waiting_start_time := Some wait_start_time\<rparr>
      in map_option (\<lambda>timed_out. (timed_out, obs1))
           (wait_loop new_message_after lag wait_start_time 0 now))"

text \<open>The clock reading at the \<open>k\<close>-th poll of a wait that started at \<open>t0\<close>: one sleep of 1
  plus its overrun lies between two polls.\<close>

primrec poll_time :: "(nat \<Rightarrow> real) \<Rightarrow> real \<Rightarrow> nat \<Rightarrow> real" where
  "poll_time lag t0 0 = t0"
| "poll_time lag t0 (Suc k) = poll_time lag t0 k + 1 + lag k"

text \<open>Poll \<open>n\<close> is the first poll from \<open>k\<close> on at which the loop leaves: a new message
  is reported or more than 300 have passed since the start \<open>s\<close>.\<close>

definition first_exit ::
  "(nat \<Rightarrow> real \<Rightarrow> bool) \<Rightarrow> (nat \<Rightarrow> real) \<Rightarrow> real \<Rightarrow> nat \<Rightarrow> nat \<Rightarrow> bool" where
  "first_exit nma lag s k n \<longleftrightarrow>
     k \<le> n \<and> (\<forall>j. k \<le> j \<and> j < n \<longrightarrow> \<not> nma j s \<and> poll_time lag s j - s \<le> 300) \<and>
     (nma n s \<or> poll_time lag s n - s > 300)"

section \<open>String constants of the source\<close>

text \<open>The fixed texts the code returns or compares with, as the bytes of their UTF-8
  encoding in the source file.\<close>

definition json_failed_reason :: string where
  "json_failed_reason =
     ''JSON'' @ [CHR 0xE8, CHR 0xA7, CHR 0xA3, CHR 0xE6, CHR 0x9E, CHR 0x90, CHR 0xE5,
     CHR 0xA4, CHR 0xB1, CHR 0xE8, CHR 0xB4, CHR 0xA5, CHR 0xEF, CHR 0xBC, CHR 0x8C,
     CHR 0xE9, CHR 0x80, CHR 0x89, CHR 0xE6, CHR 0x8B, CHR 0xA9, CHR 0xE7, CHR 0x9B,
     CHR 0xB4, CHR 0xE6, CHR 0x8E, CHR 0xA5, CHR 0xE5, CHR 0x9B, CHR 0x9E, CHR 0xE5,
     CHR 0xA4, CHR 0x8D]"

definition error_reason :: string where
  "error_reason =
     [CHR 0xE5, CHR 0x8F, CHR 0x91, CHR 0xE7, CHR 0x94, CHR 0x9F, CHR 0xE9, CHR 0x94,
     CHR 0x99, CHR 0xE8, CHR 0xAF, CHR 0xAF, CHR 0xEF, CHR 0xBC, CHR 0x8C, CHR 0xE9,
     CHR 0x80, CHR 0x89, CHR 0xE6, CHR 0x8B, CHR 0xA9, CHR 0xE7, CHR 0x9B, CHR 0xB4,
     CHR 0xE6, CHR 0x8E, CHR 0xA5, CHR 0xE5, CHR 0x9B, CHR 0x9E, CHR 0xE5, CHR 0xA4,
     CHR 0x8D]"

definition friendly_method :: string where
  "friendly_method =
     [CHR 0xE4, CHR 0xBB, CHR 0xA5, CHR 0xE5, CHR 0x8F, CHR 0x8B, CHR 0xE5, CHR 0xA5,
     CHR 0xBD, CHR 0xE7, CHR 0x9A, CHR 0x84, CHR 0xE6, CHR 0x80, CHR 0x81, CHR 0xE5,
     CHR 0xBA, CHR 0xA6, CHR 0xE5, CHR 0x9B, CHR 0x9E, CHR 0xE5, CHR 0xBA, CHR 0x94]"

definition default_goal_text :: string where
  "default_goal_text =
     [CHR 0xE4, CHR 0xBF, CHR 0x9D, CHR 0xE6, CHR 0x8C, CHR 0x81, CHR 0xE5, CHR 0x8F,
     CHR 0x8B, CHR 0xE5, CHR 0xA5, CHR 0xBD, CHR 0xE7, CHR 0x9A, CHR 0x84, CHR 0xE5,
     CHR 0xAF, CHR 0xB9, CHR 0xE8, CHR 0xAF, CHR 0x9D]"

definition default_reasoning :: string where
  "default_reasoning =
     [CHR 0xE7, CHR 0xA1, CHR 0xAE, CHR 0xE4, CHR 0xBF, CHR 0x9D, CHR 0xE5, CHR 0xAF,
     CHR 0xB9, CHR 0xE8, CHR 0xAF, CHR 0x9D, CHR 0xE9, CHR 0xA1, CHR 0xBA, CHR 0xE5,
     CHR 0x88, CHR 0xA9, CHR 0xE8, CHR 0xBF, CHR 0x9B, CHR 0xE8, CHR 0xA1, CHR 0x8C]"

definition confused_reply :: string where
  "confused_reply =
     [CHR 0xE6, CHR 0x8A, CHR 0xB1, CHR 0xE6, CHR 0xAD, CHR 0x89, CHR 0xEF, CHR 0xBC,
     CHR 0x8C, CHR 0xE6, CHR 0x88, CHR 0x91, CHR 0xE7, CHR 0x8E, CHR 0xB0, CHR 0xE5,
     CHR 0x9C, CHR 0xA8, CHR 0xE6, CHR 0x9C, CHR 0x89, CHR 0xE7, CHR 0x82, CHR 0xB9,
     CHR 0xE6, CHR 0xB7, CHR 0xB7, CHR 0xE4, CHR 0xB9, CHR 0xB1, CHR 0xEF, CHR 0xBC,
     CHR 0x8C, CHR 0xE8, CHR 0xAE, CHR 0xA9, CHR 0xE6, CHR 0x88, CHR 0x91, CHR 0xE9,
     CHR 0x87, CHR 0x8D, CHR 0xE6, CHR 0x96, CHR 0xB0, CHR 0xE6, CHR 0x80, CHR 0x9D,
     CHR 0xE8, CHR 0x80, CHR 0x83, CHR 0xE4, CHR 0xB8, CHR 0x80, CHR 0xE4, CHR 0xB8,
     CHR 0x8B] @ ''...''"

definition no_knowledge :: string where
  "no_knowledge =
     [CHR 0xE6, CHR 0x9C, CHR 0xAA, CHR 0xE6, CHR 0x89, CHR 0xBE, CHR 0xE5, CHR 0x88,
     CHR 0xB0, CHR 0xE7, CHR 0x9B, CHR 0xB8, CHR 0xE5, CHR 0x85, CHR 0xB3, CHR 0xE7,
     CHR 0x9F, CHR 0xA5, CHR 0xE8, CHR 0xAF, CHR 0x86]"

definition timeout_message :: string where
  "timeout_message =
     [CHR 0xE6, CHR 0x8A, CHR 0xB1, CHR 0xE6, CHR 0xAD, CHR 0x89, CHR 0xEF, CHR 0xBC,
     CHR 0x8C, CHR 0xE7, CHR 0x94, CHR 0xB1, CHR 0xE4, CHR 0xBA, CHR 0x8E, CHR 0xE7,
     CHR 0xAD, CHR 0x89, CHR 0xE5, CHR 0xBE, CHR 0x85, CHR 0xE6, CHR 0x97, CHR 0xB6,
     CHR 0xE9, CHR 0x97, CHR 0xB4, CHR 0xE8, CHR 0xBF, CHR 0x87, CHR 0xE9, CHR 0x95,
     CHR 0xBF, CHR 0xEF, CHR 0xBC, CHR 0x8C, CHR 0xE6, CHR 0x88, CHR 0x91, CHR 0xE9,
     CHR 0x9C, CHR 0x80, CHR 0xE8, CHR 0xA6, CHR 0x81, CHR 0xE5, CHR 0x85, CHR 0x88,
     CHR 0xE5, CHR 0x8E, CHR 0xBB, CHR 0xE5, CHR 0xBF, CHR 0x99, CHR 0xE5, CHR 0x88,
     CHR 0xAB, CHR 0xE7, CHR 0x9A, CHR 0x84, CHR 0xE4, CHR 0xBA, CHR 0x86, CHR 0xE3,
     CHR 0x80, CHR 0x82, CHR 0xE4, CHR 0xB8, CHR 0x8B, CHR 0xE6, CHR 0xAC, CHR 0xA1,
     CHR 0xE5, CHR 0x86, CHR 0x8D, CHR 0xE8, CHR 0x81, CHR 0x8A, CHR 0xE5, CHR 0x90,
     CHR 0xA7] @ ''~''"

text \<open>The action tags that \<^verbatim>\<open>ActionPlanner.plan\<close> accepts.\<close>

definition valid_actions :: "string list" where
  "valid_actions = [''direct_reply'', ''fetch_knowledge'', ''wait'', ''listening'',
     ''rethink_goal'', ''judge_conversation'']"

section \<open>Collaborators\<close>

text \<open>
  What this file reads of \<^verbatim>\<open>ChatStream\<close>, and the \<^verbatim>\<open>Message\<close> object that
  \<^verbatim>\<open>_convert_to_message\<close> builds from its keyword arguments.
\<close>

record chat_stream =
  platform :: pyval

record message =
  message_id :: pyval
  msg_chat_stream :: chat_stream
  msg_time :: pyval
  msg_user_info :: user_info
  processed_plain_text :: pyval
  detailed_plain_text :: pyval

text \<open>
  The prompt texts are fixed templates around a few variable parts; a prompt is modelled
  by its variable parts. One line of the chat history is the formatted time, the sender
  and the text; the sender is the bot itself (the line then starts with the fixed "you
  said"), a nickname, or the fixed word for "user" followed by the user id. The lines of
  the decision-info text are the ones the planner adds.
\<close>

datatype sender = YouSaid | Nickname pyval | UserNumber pyval

type_synonym chat_line = "string \<times> sender \<times> pyval"

datatype info_line =
    ColdFor int
  | NewMessages int
  | UserSilentFor int
  | BotSilentFor int
  | ActiveUsers nat

datatype prompt =
    ActionPrompt string string string "info_line list" bool "chat_line list"
  | GoalPrompt "char goal list" "chat_line list"
  | JudgePrompt string string "chat_line list"
  | ReplyPrompt string "message list" "(pyval \<times> pyval) list" "chat_line list"

text \<open>
  The code outside this file, as parameters: for each call the value it returns or the
  exception it raises. \<open>generate_response_async k p\<close> is the content returned by the
  \<open>k\<close>-th completion request of one operation, on prompt \<open>p\<close>. The three
  \<open>..._items_from_json\<close> are \<^verbatim>\<open>get_items_from_json\<close> at its three call sites, returning
  the success flag and the result; where the call passes \<^verbatim>\<open>required_types\<close> the items
  have these types. \<open>message_process\<close> is the construction and processing of the outgoing
  message, \<open>api_urls_get\<close> the configured endpoint of a platform (or \<^verbatim>\<open>None\<close>).
\<close>

record collaborators =
  bot_nickname :: string
  get_message_history :: "nat option \<Rightarrow> pyval list"
  observer_trigger_update :: "py_error option"
  wait_for_update :: "py_error + bool"
  UserInfo_from_dict :: "pyval \<Rightarrow> py_error + user_info"
  ChatStream_from_dict :: "pyval \<Rightarrow> py_error + chat_stream"
  fromtimestamp_strftime :: "pyval \<Rightarrow> py_error + string"
  generate_response_async :: "nat \<Rightarrow> prompt \<Rightarrow> py_error + pyval"
  action_items_from_json :: "pyval \<Rightarrow> py_error + bool \<times> pyval"
  goal_items_from_json :: "pyval \<Rightarrow> py_error + bool \<times> string \<times> string"
  judge_items_from_json :: "pyval \<Rightarrow> py_error + bool \<times> bool \<times> bool \<times> string"
  reply_checker_check :: "pyval \<Rightarrow> string \<Rightarrow> nat \<Rightarrow> py_error + pyval \<times> pyval \<times> pyval"
  knowledge_fetch :: "string \<Rightarrow> message list \<Rightarrow> py_error + pyval \<times> pyval"
  message_process :: "py_error option"
  api_urls_get :: "pyval \<Rightarrow> pyval"
  send_message_REST :: "pyval \<Rightarrow> pyval \<Rightarrow> py_error option"
  store_message :: "py_error option"
  remove_instance :: "py_error option"
  new_message_after_poll :: "nat \<Rightarrow> real \<Rightarrow> bool"
  sleep_lag :: "nat \<Rightarrow> real"
  time_time :: real
  now_strftime :: string

section \<open>Prompt construction\<close>

text \<open>\<^verbatim>\<open>x[k]\<close> for a string key: the item of a dictionary, a \<^verbatim>\<open>TypeError\<close> on the
  other values.\<close>

definition py_item :: "pyval \<Rightarrow> string \<Rightarrow> py_error + pyval" where
  "py_item x k = (case x of PyDict d \<Rightarrow> dict_item d k | _ \<Rightarrow> Inl TypeError)"

text \<open>\<^verbatim>\<open>x.get(k, default)\<close>: defined on dictionaries, an \<^verbatim>\<open>AttributeError\<close> on the
  other values.\<close>

definition py_get :: "pyval \<Rightarrow> string \<Rightarrow> pyval \<Rightarrow> py_error + pyval" where
  "py_get x k dflt = (case x of PyDict d \<Rightarrow> Inr (dict_get d k dflt) | _ \<Rightarrow> Inl AttributeError)"

text \<open>\<^verbatim>\<open>int(x)\<close> of a float: truncation towards zero.\<close>

definition int_of_float :: "real \<Rightarrow> int" where
  "int_of_float x = (if 0 \<le> x then \<lfloor>x\<rfloor> else \<lceil>x\<rceil>)"

text \<open>
  The body of the loop that formats the chat history, the same in \<^verbatim>\<open>plan\<close>,
  \<^verbatim>\<open>analyze_goal\<close>, \<^verbatim>\<open>analyze_conversation\<close> and \<^verbatim>\<open>generate\<close>: \<^verbatim>\<open>msg["time"]\<close>,
  its formatting, \<^verbatim>\<open>UserInfo.from_dict(msg.get("user_info", {}))\<close>, the sender and
  the text. (The model does not replace a sender of the form "user" plus id by "you said"
  when that string happens to be the bot's name.)
\<close>

definition chat_line_of :: "collaborators \<Rightarrow> pyval \<Rightarrow> py_error + chat_line" where
  "chat_line_of env msg =
     (case py_item msg ''time'' of
        Inl e \<Rightarrow> Inl e
      | Inr t \<Rightarrow>
          (case fromtimestamp_strftime env t of
             Inl e \<Rightarrow> Inl e
           | Inr time_str \<Rightarrow>
               (case py_get msg ''user_info'' (PyDict []) of
                  Inl e \<Rightarrow> Inl e
                | Inr ui_dict \<Rightarrow>
                    (case UserInfo_from_dict env ui_dict of
                       Inl e \<Rightarrow> Inl e
                     | Inr ui \<Rightarrow>
                         (case py_get msg ''processed_plain_text'' (PyStr '''') of
                            Inl e \<Rightarrow> Inl e
                          | Inr txt \<Rightarrow>
                              Inr (time_str,
                                   (if truthy (user_nickname ui) then
                                      (if user_nickname ui = PyStr (bot_nickname env)
                                       then YouSaid else Nickname (user_nickname ui))
                                    else UserNumber (user_id ui)),
                                   txt))))))"

fun chat_history_text :: "collaborators \<Rightarrow> pyval list \<Rightarrow> py_error + chat_line list" where
  "chat_history_text env [] = Inr []"
| "chat_history_text env (msg # msgs) =
     (case chat_line_of env msg of
        Inl e \<Rightarrow> Inl e
      | Inr line \<Rightarrow>
          (case chat_history_text env msgs of
             Inl e \<Rightarrow> Inl e
           | Inr ls \<Rightarrow> Inr (line # ls)))"

text \<open>The decision-info text of \<^verbatim>\<open>plan\<close>; \<open>None\<close> is the default argument
  \<^verbatim>\<open>decision_info=None\<close>. \<open>now\<close> is the value of \<^verbatim>\<open>time.time()\<close> in the two queries.\<close>

definition decision_info_text ::
  "real \<Rightarrow> decision_info option \<Rightarrow> py_error + info_line list" where
  "decision_info_text now decision_info =
     (case decision_info of
        None \<Rightarrow> Inr []
      | Some di \<Rightarrow>
          (let cold = (if is_cold_chat di
                       then [ColdFor (int_of_float (cold_chat_duration di))] else []);
               new = (if new_messages_count di > 0
                      then [NewMessages (new_messages_count di)] else [])
           in case get_user_response_time now di of
                Inl e \<Rightarrow> Inl e
              | Inr user_response_time \<Rightarrow>
                  (case get_bot_response_time now di of
                     Inl e \<Rightarrow> Inl e
                   | Inr bot_response_time \<Rightarrow>
                       Inr (cold @ new
                            @ (case user_response_time of
                                 None \<Rightarrow> []
                               | Some x \<Rightarrow> if x \<noteq> 0 then [UserSilentFor (int_of_float x)] else [])
                            @ (case bot_response_time of
                                 None \<Rightarrow> []
                               | Some x \<Rightarrow> if x \<noteq> 0 then [BotSilentFor (int_of_float x)] else [])
                            @ (if active_users di \<noteq> {}
                               then [ActiveUsers (card (active_users di))] else [])))))"

section \<open>Action planner\<close>

text \<open>
  The statements of \<^verbatim>\<open>ActionPlanner.plan\<close> before its \<^verbatim>\<open>try\<close>: the chat history of
  the last 20 messages, the note on a preceding \<^verbatim>\<open>direct_reply\<close>, the decision-info
  text. An exception here leaves \<^verbatim>\<open>plan\<close>.
\<close>

definition action_prompt ::
  "collaborators \<Rightarrow> string \<Rightarrow> string \<Rightarrow> string \<Rightarrow> action_entry list
     \<Rightarrow> decision_info option \<Rightarrow> py_error + prompt" where
  "action_prompt env goal method reasoning action_history decision_info =
     (case chat_history_text env (get_message_history env (Some 20)) of
        Inl e \<Rightarrow> Inl e
      | Inr chat \<Rightarrow>
          (let just_replied = (action_history \<noteq> []
                               \<and> entry_action (last action_history) = ''direct_reply'')
           in case decision_info_text (time_time env) decision_info of
                Inl e \<Rightarrow> Inl e
              | Inr info \<Rightarrow> Inr (ActionPrompt goal method reasoning info just_replied chat)))"

text \<open>The body of the \<^verbatim>\<open>try\<close>: the completion request, the extraction of \<open>action\<close> and
  \<open>reason\<close>, the check of the action tag.\<close>

definition plan_try :: "collaborators \<Rightarrow> prompt \<Rightarrow> py_error + pyval \<times> pyval" where
  "plan_try env p =
     (case generate_response_async env 0 p of
        Inl e \<Rightarrow> Inl e
      | Inr content \<Rightarrow>
          (case action_items_from_json env content of
             Inl e \<Rightarrow> Inl e
           | Inr (success, result) \<Rightarrow>
               if \<not> success then Inr (PyStr ''direct_reply'', PyStr json_failed_reason)
               else
                 (case py_item result ''action'' of
                    Inl e \<Rightarrow> Inl e
                  | Inr action \<Rightarrow>
                      (case py_item result ''reason'' of
                         Inl e \<Rightarrow> Inl e
                       | Inr reason \<Rightarrow>
                           Inr (if action \<notin> set (map PyStr valid_actions)
                                then PyStr ''listening'' else action,
                                reason)))))"

text \<open>\<^verbatim>\<open>ActionPlanner.plan\<close>: the prompt, then the \<^verbatim>\<open>try\<close> with its
  \<^verbatim>\<open>except Exception\<close>.\<close>

definition plan ::
  "collaborators \<Rightarrow> string \<Rightarrow> string \<Rightarrow> string \<Rightarrow> action_entry list
     \<Rightarrow> decision_info option \<Rightarrow> py_error + pyval \<times> pyval" where
  "plan env goal method reasoning action_history decision_info =
     (case action_prompt env goal method reasoning action_history decision_info of
        Inl e \<Rightarrow> Inl e
      | Inr p \<Rightarrow>
          (case plan_try env p of
             Inl e \<Rightarrow> Inr (PyStr ''direct_reply'', PyStr error_reason)
           | Inr r \<Rightarrow> Inr r))"

section \<open>Goal analyzer\<close>

text \<open>The triple returned when goal analysis gives up.\<close>

definition default_goal :: "char goal" where
  "default_goal = (default_goal_text, friendly_method, default_reasoning)"

definition max_retries :: nat where
  "max_retries = 3"

text \<open>
  \<^verbatim>\<open>GoalAnalyzer.analyze_goal\<close> from attempt \<open>retry\<close> on, with \<open>left\<close> attempts to go.
  The body of the loop is one \<^verbatim>\<open>try\<close>: an exception in the last attempt returns the
  default triple, an earlier one continues, as does an unsuccessful extraction. The
  result is the goal list and the returned triple.
\<close>

fun analyze_goal_from ::
  "collaborators \<Rightarrow> char goal list \<Rightarrow> nat \<Rightarrow> nat \<Rightarrow> char goal list \<times> char goal" where
  "analyze_goal_from env goals retry 0 = (goals, default_goal)"
| "analyze_goal_from env goals retry (Suc left) =
     (let on_exception =
            (if retry = max_retries - 1 then (goals, default_goal)
             else analyze_goal_from env goals (Suc retry) left)
      in case chat_history_text env (get_message_history env (Some 20)) of
           Inl e \<Rightarrow> on_exception
         | Inr chat \<Rightarrow>
             (case generate_response_async env retry (GoalPrompt goals chat) of
                Inl e \<Rightarrow> on_exception
              | Inr content \<Rightarrow>
                  (case goal_items_from_json env content of
                     Inl e \<Rightarrow> on_exception
                   | Inr (success, goal, reasoning) \<Rightarrow>
                       if \<not> success then analyze_goal_from env goals (Suc retry) left
                       else
                         (let goals1 = update_goals goals goal friendly_method reasoning
                          in (goals1,
                              if goals1 \<noteq> [] then hd goals1
                              else (goal, friendly_method, reasoning))))))"

definition analyze_goal :: "collaborators \<Rightarrow> char goal list \<Rightarrow> char goal list \<times> char goal" where
  "analyze_goal env goals = analyze_goal_from env goals 0 max_retries"

text \<open>\<^verbatim>\<open>GoalAnalyzer.get_alternative_goals\<close>: the goals after the first one.\<close>

definition get_alternative_goals :: "'c goal list \<Rightarrow> 'c goal list" where
  "get_alternative_goals goals = (if length goals \<le> 1 then [] else tl goals)"

text \<open>The index of the first goal whose text equals \<open>goal\<close>, as found by the loop of
  \<^verbatim>\<open>analyze_conversation\<close>.\<close>

fun first_with_text :: "'c list \<Rightarrow> 'c goal list \<Rightarrow> nat option" where
  "first_with_text goal [] = None"
| "first_with_text goal ((g, m, r) # rest) =
     (if g = goal then Some 0 else map_option Suc (first_with_text goal rest))"

text \<open>
  \<^verbatim>\<open>GoalAnalyzer.analyze_conversation\<close>. The chat history is built before the
  \<^verbatim>\<open>try\<close>, so an exception there leaves the function. Inside the \<^verbatim>\<open>try\<close> every
  exception returns \<open>(False, False, default_reasoning)\<close>. The result is the goal list and
  the returned triple \<open>(goal_achieved, stop_conversation, reason)\<close>.
\<close>

definition analyze_conversation ::
  "collaborators \<Rightarrow> char goal list \<Rightarrow> string \<Rightarrow> string
     \<Rightarrow> py_error + char goal list \<times> bool \<times> bool \<times> string" where
  "analyze_conversation env goals goal reasoning =
     (case chat_history_text env (get_message_history env None) of
        Inl e \<Rightarrow> Inl e
      | Inr chat \<Rightarrow>
          (case generate_response_async env 0 (JudgePrompt goal reasoning chat) of
             Inl e \<Rightarrow> Inr (goals, False, False, default_reasoning)
           | Inr content \<Rightarrow>
               (case judge_items_from_json env content of
                  Inl e \<Rightarrow> Inr (goals, False, False, default_reasoning)
                | Inr (success, goal_achieved, stop_conversation, reason) \<Rightarrow>
                    if \<not> success then Inr (goals, False, False, default_reasoning)
                    else if goal_achieved \<and> \<not> stop_conversation then
                      (case first_with_text goal goals of
                         None \<Rightarrow> Inr (goals, goal_achieved, stop_conversation, reason)
                       | Some i \<Rightarrow>
                           (let goals1 = pop_at i goals
                            in Inr (goals1, goal_achieved,
                                    (if goals1 \<noteq> [] then False else stop_conversation),
                                    reason)))
                    else Inr (goals, goal_achieved, stop_conversation, reason))))"

section \<open>Reply generator\<close>

text \<open>
  \<^verbatim>\<open>ReplyGenerator.generate\<close>. The refresh of the observer and the chat history come
  before the \<^verbatim>\<open>try\<close>; a failed completion request returns the fixed apology. The
  parameter types are those of the arguments that \<^verbatim>\<open>_handle_action\<close> passes in these
  positions.
\<close>

definition generate ::
  "collaborators \<Rightarrow> string \<Rightarrow> string \<Rightarrow> message list \<Rightarrow> (pyval \<times> pyval) list
     \<Rightarrow> py_error + pyval" where
  "generate env goal chat_history knowledge_cache previous_reply =
     (case observer_trigger_update env of
        Some e \<Rightarrow> Inl e
      | None \<Rightarrow>
          (case wait_for_update env of
             Inl e \<Rightarrow> Inl e
           | Inr updated \<Rightarrow>
               (case chat_history_text env (get_message_history env (Some 20)) of
                  Inl e \<Rightarrow> Inl e
                | Inr chat \<Rightarrow>
                    (case generate_response_async env 0
                            (ReplyPrompt goal knowledge_cache previous_reply chat) of
                       Inl e \<Rightarrow> Inr (PyStr confused_reply)
                     | Inr content \<Rightarrow> Inr content))))"

text \<open>\<^verbatim>\<open>ReplyGenerator.check_reply\<close> hands its arguments to the reply checker.\<close>

definition check_reply ::
  "collaborators \<Rightarrow> pyval \<Rightarrow> string \<Rightarrow> nat \<Rightarrow> py_error + pyval \<times> pyval \<times> pyval" where
  "check_reply env reply goal retry_count = reply_checker_check env reply goal retry_count"

section \<open>Conversation\<close>

datatype ConversationState =
    INIT | RETHINKING | ANALYZING | PLANNING | GENERATING | CHECKING | SENDING
  | WAITING | LISTENING | ENDED | JUDGING

text \<open>
  The attributes of a \<^verbatim>\<open>Conversation\<close> that the modelled methods read or write:
  \<open>analyzer_goals\<close> is \<^verbatim>\<open>goal_analyzer.goals\<close>, \<open>chat_observer\<close> the observer attribute
  that the waiter assigns, and \<open>outbox\<close> the messages that
  \<^verbatim>\<open>global_api.send_message_REST\<close> accepted: endpoint, content and the message replied to.
  Calls of the module logger are not modelled.
\<close>

record conversation =
  state :: ConversationState
  should_continue :: bool
  current_goal :: string
  current_method :: string
  goal_reasoning :: string
  analyzer_goals :: "char goal list"
  action_history :: "action_entry list"
  generated_reply :: pyval
  knowledge_cache :: "(pyval \<times> pyval) list"
  goal_achieved :: bool
  stop_conversation :: bool
  reason :: string
  conv_chat_stream :: chat_stream
  chat_observer :: observer
  outbox :: "(pyval \<times> pyval \<times> message option) list"

text \<open>\<^verbatim>\<open>Conversation._convert_to_message\<close>; its \<^verbatim>\<open>except\<close> re-raises.\<close>

definition convert_to_message :: "collaborators \<Rightarrow> pyval \<Rightarrow> py_error + message" where
  "convert_to_message env msg_dict =
     (case py_get msg_dict ''chat_info'' (PyDict []) of
        Inl e \<Rightarrow> Inl e
      | Inr chat_info \<Rightarrow>
          (case ChatStream_from_dict env chat_info of
             Inl e \<Rightarrow> Inl e
           | Inr cs \<Rightarrow>
               (case py_get msg_dict ''user_info'' (PyDict []) of
                  Inl e \<Rightarrow> Inl e
                | Inr ui_dict \<Rightarrow>
                    (case UserInfo_from_dict env ui_dict of
                       Inl e \<Rightarrow> Inl e
                     | Inr ui \<Rightarrow>
                         (case py_item msg_dict ''message_id'' of
                            Inl e \<Rightarrow> Inl e
                          | Inr mid \<Rightarrow>
                              (case py_item msg_dict ''time'' of
                                 Inl e \<Rightarrow> Inl e
                               | Inr t \<Rightarrow>
                                   (case py_get msg_dict ''processed_plain_text'' (PyStr '''') of
                                      Inl e \<Rightarrow> Inl e
                                    | Inr ptxt \<Rightarrow>
                                        (case py_get msg_dict ''detailed_plain_text'' (PyStr '''') of
                                           Inl e \<Rightarrow> Inl e
                                         | Inr dtxt \<Rightarrow>
                                             Inr \<lparr>message_id = mid, msg_chat_stream = cs,
                                                  msg_time = t, msg_user_info = ui,
                                                  processed_plain_text = ptxt,
                                                  detailed_plain_text = dtxt\<rparr>))))))))"

text \<open>The list comprehension \<^verbatim>\<open>[self._convert_to_message(msg) for msg in messages]\<close>.\<close>

fun convert_all :: "collaborators \<Rightarrow> pyval list \<Rightarrow> py_error + message list" where
  "convert_all env [] = Inr []"
| "convert_all env (msg # msgs) =
     (case convert_to_message env msg of
        Inl e \<Rightarrow> Inl e
      | Inr m \<Rightarrow>
          (case convert_all env msgs of
             Inl e \<Rightarrow> Inl e
           | Inr ms \<Rightarrow> Inr (m # ms)))"

text \<open>
  \<^verbatim>\<open>DirectMessageSender.send_message\<close>: the message is built and processed, the
  endpoint of the platform looked up (a \<^verbatim>\<open>ValueError\<close> when there is none), the message
  posted and then stored; the closing log line slices the content (\<^verbatim>\<open>content[:30]\<close>),
  which raises on a content that is neither a string nor a list. Every exception is
  raised to the caller. The result is the outbox and the exception raised, if any.
\<close>

definition send_message ::
  "collaborators \<Rightarrow> (pyval \<times> pyval \<times> message option) list \<Rightarrow> chat_stream \<Rightarrow> pyval
     \<Rightarrow> message option \<Rightarrow> (pyval \<times> pyval \<times> message option) list \<times> py_error option" where
  "send_message env out cs content reply_to_message =
     (case message_process env of
        Some e \<Rightarrow> (out, Some e)
      | None \<Rightarrow>
          (let end_point = api_urls_get env (platform cs)
           in if \<not> truthy end_point then (out, Some ValueError)
              else
                (case send_message_REST env end_point content of
                   Some e \<Rightarrow> (out, Some e)
                 | None \<Rightarrow>
                     (out @ [(end_point, content, reply_to_message)],
                      case store_message env of
                        Some e \<Rightarrow> Some e
                      | None \<Rightarrow> if sliceable content then None else Some TypeError))))"

text \<open>
  \<^verbatim>\<open>Conversation._send_reply\<close>. The two early returns, the conversion of the latest
  message (outside the \<^verbatim>\<open>try\<close>), then the \<^verbatim>\<open>try\<close>: both its normal end, whatever the
  refresh of the observer does, and its \<^verbatim>\<open>except\<close> set the state to \<open>ANALYZING\<close>.
\<close>

definition send_reply :: "collaborators \<Rightarrow> conversation \<Rightarrow> conversation \<times> py_error option" where
  "send_reply env c =
     (if \<not> truthy (generated_reply c) then (c, None)
      else
        (let messages = get_message_history env (Some 1)
         in if messages = [] then (c, None)
            else
              (case convert_to_message env (hd messages) of
                 Inl e \<Rightarrow> (c, Some e)
               | Inr latest_message \<Rightarrow>
                   (case send_message env (outbox c) (conv_chat_stream c) (generated_reply c)
                           (Some latest_message) of
                      (out, sent) \<Rightarrow> (c\<lparr>outbox := out, state := ANALYZING\<rparr>, None)))))"

text \<open>\<^verbatim>\<open>Conversation._send_timeout_message\<close>: one \<^verbatim>\<open>try\<close> that logs every exception.\<close>

definition send_timeout_message :: "collaborators \<Rightarrow> conversation \<Rightarrow> conversation" where
  "send_timeout_message env c =
     (let messages = get_message_history env (Some 1)
      in if messages = [] then c
         else
           (case convert_to_message env (hd messages) of
              Inl e \<Rightarrow> c
            | Inr latest_message \<Rightarrow>
                c\<lparr>outbox := fst (send_message env (outbox c) (conv_chat_stream c)
                                    (PyStr timeout_message) (Some latest_message))\<rparr>))"

text \<open>\<^verbatim>\<open>Conversation._stop_conversation\<close>, the stop path.\<close>

definition stop_path :: "collaborators \<Rightarrow> conversation \<Rightarrow> conversation \<times> py_error option" where
  "stop_path env c = (c\<lparr>should_continue := False, state := ENDED\<rparr>, remove_instance env)"

text \<open>
  The branches of \<^verbatim>\<open>Conversation._handle_action\<close>. Each returns the conversation it
  leaves and the exception that leaves the method, if any.
\<close>

definition handle_direct_reply ::
  "collaborators \<Rightarrow> conversation \<Rightarrow> conversation \<times> py_error option" where
  "handle_direct_reply env c =
     (let c1 = c\<lparr>state := GENERATING\<rparr>;
          messages = get_message_history env (Some 30)
      in case convert_all env messages of
           Inl e \<Rightarrow> (c1, Some e)
         | Inr msgs \<Rightarrow>
             (case generate env (current_goal c1) (current_method c1) msgs
                     (knowledge_cache c1) of
                Inl e \<Rightarrow> (c1, Some e)
              | Inr reply \<Rightarrow>
                  (let c2 = c1\<lparr>generated_reply := reply\<rparr>
                   in case check_reply env (generated_reply c2) (current_goal c2) 0 of
                        Inl e \<Rightarrow> (c2, Some e)
                      | Inr (is_suitable, check_reason, need_replan) \<Rightarrow> send_reply env c2)))"

definition handle_fetch_knowledge ::
  "collaborators \<Rightarrow> conversation \<Rightarrow> conversation \<times> py_error option" where
  "handle_fetch_knowledge env c =
     (let c1 = c\<lparr>state := GENERATING\<rparr>;
          messages = get_message_history env (Some 30)
      in case convert_all env messages of
           Inl e \<Rightarrow> (c1, Some e)
         | Inr msgs \<Rightarrow>
             (case knowledge_fetch env (current_goal c1) msgs of
                Inl e \<Rightarrow> (c1, Some e)
              | Inr (knowledge, sources) \<Rightarrow>
                  if knowledge \<noteq> PyStr no_knowledge then
                    (if hashable sources
                     then (c1\<lparr>knowledge_cache :=
                                 AList.update sources knowledge (knowledge_cache c1)\<rparr>, None)
                     else (c1, Some TypeError))
                  else (c1, None)))"

definition handle_rethink_goal :: "collaborators \<Rightarrow> conversation \<Rightarrow> conversation" where
  "handle_rethink_goal env c =
     (let c1 = c\<lparr>state := RETHINKING\<rparr>
      in case analyze_goal env (analyzer_goals c1) of
           (goals1, g, m, r) \<Rightarrow>
             c1\<lparr>analyzer_goals := goals1, current_goal := g, current_method := m,
                goal_reasoning := r\<rparr>)"

definition handle_judge_conversation ::
  "collaborators \<Rightarrow> conversation \<Rightarrow> conversation \<times> py_error option" where
  "handle_judge_conversation env c =
     (let c1 = c\<lparr>state := JUDGING\<rparr>
      in case analyze_conversation env (analyzer_goals c1) (current_goal c1)
                (goal_reasoning c1) of
           Inl e \<Rightarrow> (c1, Some e)
         | Inr (goals1, achieved, stop, why) \<Rightarrow>
             (let c2 = c1\<lparr>analyzer_goals := goals1, goal_achieved := achieved,
                           stop_conversation := stop, reason := why\<rparr>;
                  alternative_goals = get_alternative_goals (analyzer_goals c2)
              in if goal_achieved c2 \<and> \<not> stop_conversation c2 \<and> alternative_goals \<noteq> [] then
                   (case hd alternative_goals of
                      (g, m, r) \<Rightarrow>
                        (c2\<lparr>current_goal := g, current_method := m, goal_reasoning := r\<rparr>,
                         None))
                 else if stop_conversation c2 then stop_path env c2
                 else (c2, None)))"

text \<open>The branches \<open>listening\<close> and \<open>wait\<close> differ in the state they set. The waiter
  may not return; then neither does the branch.\<close>

definition handle_waiting ::
  "collaborators \<Rightarrow> ConversationState \<Rightarrow> conversation
     \<Rightarrow> (conversation \<times> py_error option) option" where
  "handle_waiting env st c =
     (let c1 = c\<lparr>state := st\<rparr>
      in case wait (new_message_after_poll env) (sleep_lag env) (time_time env)
                (chat_observer c1) of
           None \<Rightarrow> None
         | Some (timed_out, obs) \<Rightarrow>
             (let c2 = c1\<lparr>chat_observer := obs\<rparr>
              in if timed_out then Some (stop_path env (send_timeout_message env c2))
                 else Some (c2, None)))"

text \<open>
  \<^verbatim>\<open>Conversation._handle_action\<close>: the action is recorded in the history, stamped with
  the formatted current time, then dispatched on its tag; the last \<^verbatim>\<open>else\<close> takes
  \<open>wait\<close> and every other tag.
\<close>

definition handle_action ::
  "collaborators \<Rightarrow> string \<Rightarrow> pyval \<Rightarrow> conversation
     \<Rightarrow> (conversation \<times> py_error option) option" where
  "handle_action env action why c =
     (let c0 = c\<lparr>action_history :=
                   record_action (action_history c)
                     \<lparr>entry_action = action, entry_reason = why,
                      entry_time = now_strftime env\<rparr>\<rparr>
      in if action = ''direct_reply'' then Some (handle_direct_reply env c0)
         else if action = ''fetch_knowledge'' then Some (handle_fetch_knowledge env c0)
         else if action = ''rethink_goal'' then Some (handle_rethink_goal env c0, None)
         else if action = ''judge_conversation'' then Some (handle_judge_conversation env c0)
         else if action = ''listening'' then handle_waiting env LISTENING c0
         else handle_waiting env WAITING c0)"

text \<open>
  An environment for examples: no message history, every collaborator call returns, the
  completion is the string \<open>ok\<close>, the judge finds the goal achieved and does not want to
  stop, the observer reports a new message at the first poll.
\<close>

definition quiet :: collaborators where
  "quiet =
     \<lparr>bot_nickname = ''bot'',
      get_message_history = (\<lambda>limit. []),
      observer_trigger_update = None,
      wait_for_update = Inr True,
      UserInfo_from_dict = (\<lambda>d. Inr \<lparr>user_id = PyStr ''u1'', user_nickname = PyStr ''ann''\<rparr>),
      ChatStream_from_dict = (\<lambda>d. Inr \<lparr>platform = PyStr ''qq''\<rparr>),
      fromtimestamp_strftime = (\<lambda>t. Inr ''12:00:00''),
      generate_response_async = (\<lambda>k p. Inr (PyStr ''ok'')),
      action_items_from_json =
        (\<lambda>content. Inr (True, PyDict [(''action'', PyStr ''wait''), (''reason'', PyStr ''r'')])),
      goal_items_from_json = (\<lambda>content. Inr (True, ''chat'', ''r'')),
      judge_items_from_json = (\<lambda>content. Inr (True, True, False, ''done'')),
      reply_checker_check = (\<lambda>reply goal retry_count. Inr (PyBool True, PyStr '''', PyBool False)),
      knowledge_fetch = (\<lambda>goal msgs. Inr (PyStr no_knowledge, PyStr '''')),
      message_process = None,
      api_urls_get = (\<lambda>p. PyStr ''http://localhost''),
      send_message_REST = (\<lambda>end_point content. None),
      store_message = None,
      remove_instance = None,
      new_message_after_poll = (\<lambda>k t. True),
      sleep_lag = (\<lambda>k. 0),
      time_time = 1000,
      now_strftime = ''12:00:00''\<rparr>"

text \<open>A conversation for examples, with the goal \<open>A\<close> active and no goals stored.\<close>

definition fresh :: conversation where
  "fresh =
     \<lparr>state = INIT, should_continue = True, current_goal = ''A'', current_method = ''m'',
      goal_reasoning = ''r'', analyzer_goals = [], action_history = [],
      generated_reply = PyNone, knowledge_cache = [], goal_achieved = False,
      stop_conversation = False, reason = '''', conv_chat_stream = \<lparr>platform = PyStr ''qq''\<rparr>,
      chat_observer = \<lparr>waiting_start_time = None\<rparr>, outbox = []\<rparr>"


section \<open>Properties of the goal store\<close>

lemma first_similar_Some:
  "first_similar g gs = Some i \<Longrightarrow>
     i < length gs \<and> calculate_similarity g (fst (gs ! i)) > 0.7 \<and>
     (\<forall>j<i. \<not> calculate_similarity g (fst (gs ! j)) > 0.7)"
proof (induction g gs arbitrary: i rule: first_similar.induct)
  case (1 g)
  then show ?case by simp
next
  case (2 g e m r rest)
  show ?case
  proof (cases "calculate_similarity g e > 0.7")
    case True
    with 2 show ?thesis by simp
  next
    case False
    with 2(2) obtain k where k: "first_similar g rest = Some k" "i = Suc k"
      by auto
    from 2(1)[OF False k(1)] False k(2) show ?thesis
      by (auto simp: less_Suc_eq_0_disj)
  qed
qed

lemma first_similar_None:
  "first_similar g gs = None \<longleftrightarrow> (\<forall>x\<in>set gs. \<not> calculate_similarity g (fst x) > 0.7)"
  by (induction g gs rule: first_similar.induct) auto

lemma first_similar_first:
  assumes "i < length gs" "calculate_similarity g (fst (gs ! i)) > 0.7"
    "\<forall>j<i. \<not> calculate_similarity g (fst (gs ! j)) > 0.7"
  shows "first_similar g gs = Some i"
proof -
  from assms(1,2) have "\<not> (\<forall>x\<in>set gs. \<not> calculate_similarity g (fst x) > 0.7)"
    using nth_mem by blast
  then obtain k where k: "first_similar g gs = Some k"
    using first_similar_None by (cases "first_similar g gs") auto
  from first_similar_Some[OF k] assms have "k = i"
    by (meson linorder_neqE_nat)
  with k show ?thesis by simp
qed

text \<open>The similarity computed on lists, for evaluation on concrete strings.\<close>

lemma calculate_similarity_lists:
  "calculate_similarity goal1 goal2 =
     (let overlap = length (remdups (filter (\<lambda>c. c \<in> set goal2) goal1));
          total = length (remdups (goal1 @ goal2))
      in if total > 0 then real overlap / real total else 0)"
proof -
  have "set goal1 \<inter> set goal2 = set (filter (\<lambda>c. c \<in> set goal2) goal1)"
    by auto
  then have "card (set goal1 \<inter> set goal2) =
      length (remdups (filter (\<lambda>c. c \<in> set goal2) goal1))"
    by (simp only: length_remdups_card_conv)
  moreover have "card (set goal1 \<union> set goal2) = length (remdups (goal1 @ goal2))"
    by (simp only: length_remdups_card_conv set_append)
  ultimately show ?thesis
    by (simp only: calculate_similarity_def Let_def)
qed

text \<open>
  C2, as stated, at the threshold: the new goal \<open>abcdefg\<close> and the stored goal
  \<open>abcdefghij\<close> share 7 of 10 characters, a similarity of exactly 0.7, which is "at
  least 0.7"; the stored entry is not replaced and the list grows from one to two goals.
\<close>

theorem update_goals_at_threshold_grows:
  "calculate_similarity ''abcdefg'' ''abcdefghij'' \<ge> 0.7 \<and>
   update_goals [(''abcdefghij'', ''m'', ''r'')] ''abcdefg'' ''m2'' ''r2''
     = [(''abcdefg'', ''m2'', ''r2''), (''abcdefghij'', ''m'', ''r'')]"
  by (simp add: update_goals_def max_goals_def calculate_similarity_lists)

text \<open>
  C2, amended: on a goal list within the capacity of 3, \<^verbatim>\<open>_update_goals\<close> leaves a list
  within the capacity. If some stored goal has a similarity strictly above 0.7 with the
  new goal, the first such entry (at index \<open>i\<close>) is replaced by the new triple and moved
  to the front, the other entries keep their order and the length is unchanged. If no
  stored goal has a similarity strictly above 0.7, the new triple is put in front and the
  result is cut to the first 3 entries, so the last entry is dropped when the list was
  full.
\<close>

theorem update_goals_threshold:
  assumes "length goals \<le> max_goals"
  shows "length (update_goals goals new_goal method reasoning) \<le> max_goals \<and>
    (\<forall>i. i < length goals \<and> calculate_similarity new_goal (fst (goals ! i)) > 0.7 \<and>
          (\<forall>j<i. \<not> calculate_similarity new_goal (fst (goals ! j)) > 0.7) \<longrightarrow>
       update_goals goals new_goal method reasoning =
         (new_goal, method, reasoning) # take i goals @ drop (Suc i) goals \<and>
       length (update_goals goals new_goal method reasoning) = length goals) \<and>
    ((\<forall>x\<in>set goals. \<not> calculate_similarity new_goal (fst x) > 0.7) \<longrightarrow>
       update_goals goals new_goal method reasoning =
         take max_goals ((new_goal, method, reasoning) # goals))"
proof (intro conjI allI impI)
  show "length (update_goals goals new_goal method reasoning) \<le> max_goals"
  proof (cases "first_similar new_goal goals")
    case None
    with assms show ?thesis
      by (simp add: update_goals_def Let_def)
  next
    case (Some i)
    from first_similar_Some[OF Some] have "i < length goals" by simp
    with Some assms show ?thesis
      by (simp add: update_goals_def Let_def pop_at_def)
  qed
next
  fix i
  assume h: "i < length goals \<and> calculate_similarity new_goal (fst (goals ! i)) > 0.7 \<and>
          (\<forall>j<i. \<not> calculate_similarity new_goal (fst (goals ! j)) > 0.7)"
  then have fs: "first_similar new_goal goals = Some i"
    by (simp add: first_similar_first)
  from h fs show "update_goals goals new_goal method reasoning =
         (new_goal, method, reasoning) # take i goals @ drop (Suc i) goals"
    by (simp add: update_goals_def Let_def pop_at_def)
  from h have "i < length goals" by simp
  with fs show "length (update_goals goals new_goal method reasoning) = length goals"
    by (simp add: update_goals_def Let_def pop_at_def)
next
  assume "\<forall>x\<in>set goals. \<not> calculate_similarity new_goal (fst x) > 0.7"
  then have fs: "first_similar new_goal goals = None"
    by (simp add: first_similar_None)
  show "update_goals goals new_goal method reasoning =
         take max_goals ((new_goal, method, reasoning) # goals)"
  proof (cases "length goals < max_goals")
    case True
    with fs show ?thesis by (simp add: update_goals_def Let_def)
  next
    case False
    with assms have "length goals = max_goals" by simp
    with fs show ?thesis
      by (simp add: update_goals_def Let_def butlast_conv_take)
  qed
qed

theorem update_goals_threshold_witness:
  "update_goals [(''ab'', ''m'', ''r''), (''abcdefghij'', ''m'', ''r'')]
       ''abcdefghi'' ''m2'' ''r2''
     = [(''abcdefghi'', ''m2'', ''r2''), (''ab'', ''m'', ''r'')] \<and>
   update_goals [(''x'', ''m'', ''r''), (''y'', ''m'', ''r''), (''z'', ''m'', ''r'')]
       ''w'' ''m2'' ''r2''
     = [(''w'', ''m2'', ''r2''), (''x'', ''m'', ''r''), (''y'', ''m'', ''r'')]"
proof -
  let ?g1 = "[(''ab'', ''m'', ''r''), (''abcdefghij'', ''m'', ''r'')]"
  let ?g2 = "[(''x'', ''m'', ''r''), (''y'', ''m'', ''r''), (''z'', ''m'', ''r'')]"
  have l1: "length ?g1 \<le> max_goals" and l2: "length ?g2 \<le> max_goals"
    by (simp_all add: max_goals_def)
  have c1: "(1::nat) < length ?g1 \<and>
      calculate_similarity ''abcdefghi'' (fst (?g1 ! 1)) > 0.7 \<and>
      (\<forall>j<(1::nat). \<not> calculate_similarity ''abcdefghi'' (fst (?g1 ! j)) > 0.7)"
    by (simp add: calculate_similarity_lists)
  have c2: "\<forall>x\<in>set ?g2. \<not> calculate_similarity ''w'' (fst x) > 0.7"
    by (simp add: calculate_similarity_lists)
  from update_goals_threshold [OF l1, of "''abcdefghi''" "''m2''" "''r2''"] c1
  have "update_goals ?g1 ''abcdefghi'' ''m2'' ''r2''
      = (''abcdefghi'', ''m2'', ''r2'') # take 1 ?g1 @ drop (Suc 1) ?g1"
    by blast
  moreover from update_goals_threshold [OF l2, of "''w''" "''m2''" "''r2''"] c2
  have "update_goals ?g2 ''w'' ''m2'' ''r2''
      = take max_goals ((''w'', ''m2'', ''r2'') # ?g2)"
    by blast
  ultimately show ?thesis
    by (simp add: max_goals_def)
qed

section \<open>Properties of the action history\<close>

text \<open>
  Recording an action: whatever the history was, the result has at most 10 entries, it is
  the end of the old history followed by the new entry (so the entries dropped are the
  oldest and the order is kept), and it holds as many of these most recent entries as fit
  in 10.
\<close>

lemma record_action_keeps_last_ten:
  "length (record_action h entry) \<le> 10 \<and>
   suffix (record_action h entry) (h @ [entry]) \<and>
   length (record_action h entry) = min 10 (Suc (length h)) \<and>
   last (record_action h entry) = entry"
  by (auto simp: record_action_def last_n_def Let_def suffix_drop)

section \<open>Properties of DecisionInfo\<close>

text \<open>
  C8, as stated, for the active duration: on a DecisionInfo whose last message time is
  unset (\<^verbatim>\<open>None\<close>), \<^verbatim>\<open>get_active_duration\<close> returns the float 0.0, a numeric duration,
  not an "unknown" value.
\<close>

theorem active_duration_unset_is_zero:
  "last_message_time DecisionInfo = PyNone \<and>
   get_active_duration 100 DecisionInfo = Inr 0"
  by (simp add: get_active_duration_def DecisionInfo_def)

text \<open>
  C8, amended: when the relevant timestamp is a number other than zero (a float \<open>t\<close>, an
  int \<open>i\<close>, or the bool \<^verbatim>\<open>True\<close>, which counts as 1), each of the three queries returns
  the current time minus that timestamp. When the timestamp is unset,
  \<^verbatim>\<open>get_user_response_time\<close> and \<^verbatim>\<open>get_bot_response_time\<close> return \<^verbatim>\<open>None\<close>,
  and \<^verbatim>\<open>get_active_duration\<close> returns the number 0.0.
\<close>

theorem derived_queries:
  "(last_message_time di = PyFloat t \<and> t \<noteq> 0 \<longrightarrow>
      get_active_duration now di = Inr (now - t)) \<and>
   (last_message_time di = PyInt i \<and> i \<noteq> 0 \<longrightarrow>
      get_active_duration now di = Inr (now - real_of_int i)) \<and>
   (last_message_time di = PyBool True \<longrightarrow> get_active_duration now di = Inr (now - 1)) \<and>
   (last_message_time di = PyNone \<longrightarrow> get_active_duration now di = Inr 0) \<and>
   (last_user_speak_time di = PyFloat t \<and> t \<noteq> 0 \<longrightarrow>
      get_user_response_time now di = Inr (Some (now - t))) \<and>
   (last_user_speak_time di = PyInt i \<and> i \<noteq> 0 \<longrightarrow>
      get_user_response_time now di = Inr (Some (now - real_of_int i))) \<and>
   (last_user_speak_time di = PyBool True \<longrightarrow>
      get_user_response_time now di = Inr (Some (now - 1))) \<and>
   (last_user_speak_time di = PyNone \<longrightarrow> get_user_response_time now di = Inr None) \<and>
   (last_bot_speak_time di = PyFloat t \<and> t \<noteq> 0 \<longrightarrow>
      get_bot_response_time now di = Inr (Some (now - t))) \<and>
   (last_bot_speak_time di = PyInt i \<and> i \<noteq> 0 \<longrightarrow>
      get_bot_response_time now di = Inr (Some (now - real_of_int i))) \<and>
   (last_bot_speak_time di = PyBool True \<longrightarrow>
      get_bot_response_time now di = Inr (Some (now - 1))) \<and>
   (last_bot_speak_time di = PyNone \<longrightarrow> get_bot_response_time now di = Inr None)"
  by (simp add: get_active_duration_def get_user_response_time_def get_bot_response_time_def)

theorem derived_queries_witness:
  "get_active_duration 100 (DecisionInfo\<lparr>last_message_time := PyFloat 40\<rparr>) = Inr 60 \<and>
   get_active_duration 100 (DecisionInfo\<lparr>last_message_time := PyInt 40\<rparr>) = Inr 60 \<and>
   get_active_duration 100 (DecisionInfo\<lparr>last_message_time := PyBool True\<rparr>) = Inr 99 \<and>
   get_active_duration 100 DecisionInfo = Inr 0 \<and>
   get_user_response_time 100 (DecisionInfo\<lparr>last_user_speak_time := PyFloat 40\<rparr>)
     = Inr (Some 60) \<and>
   get_user_response_time 100 (DecisionInfo\<lparr>last_user_speak_time := PyInt 40\<rparr>)
     = Inr (Some 60) \<and>
   get_user_response_time 100 (DecisionInfo\<lparr>last_user_speak_time := PyBool True\<rparr>)
     = Inr (Some 99) \<and>
   get_user_response_time 100 DecisionInfo = Inr None \<and>
   get_bot_response_time 100 (DecisionInfo\<lparr>last_bot_speak_time := PyFloat 40\<rparr>)
     = Inr (Some 60) \<and>
   get_bot_response_time 100 (DecisionInfo\<lparr>last_bot_speak_time := PyInt 40\<rparr>)
     = Inr (Some 60) \<and>
   get_bot_response_time 100 (DecisionInfo\<lparr>last_bot_speak_time := PyBool True\<rparr>)
     = Inr (Some 99) \<and>
   get_bot_response_time 100 DecisionInfo = Inr None"
  using derived_queries [of "DecisionInfo\<lparr>last_message_time := PyFloat 40\<rparr>" 40 100 0]
    derived_queries [of "DecisionInfo\<lparr>last_message_time := PyInt 40\<rparr>" 0 100 40]
    derived_queries [of "DecisionInfo\<lparr>last_message_time := PyBool True\<rparr>" 0 100 0]
    derived_queries [of "DecisionInfo\<lparr>last_user_speak_time := PyFloat 40\<rparr>" 40 100 0]
    derived_queries [of "DecisionInfo\<lparr>last_user_speak_time := PyInt 40\<rparr>" 0 100 40]
    derived_queries [of "DecisionInfo\<lparr>last_user_speak_time := PyBool True\<rparr>" 0 100 0]
    derived_queries [of "DecisionInfo\<lparr>last_bot_speak_time := PyFloat 40\<rparr>" 40 100 0]
    derived_queries [of "DecisionInfo\<lparr>last_bot_speak_time := PyInt 40\<rparr>" 0 100 40]
    derived_queries [of "DecisionInfo\<lparr>last_bot_speak_time := PyBool True\<rparr>" 0 100 0]
    derived_queries [of DecisionInfo 0 100 0]
  by (simp add: DecisionInfo_def)

section \<open>Properties of the notification handler\<close>

text \<open>
  C7, as stated, on a dictionary that is not a well-formed message: the new-message data
  has a \<open>time\<close> but its \<open>user_info\<close> is the string \<open>x\<close>, on which
  \<^verbatim>\<open>UserInfo.from_dict\<close> (reading its argument with \<^verbatim>\<open>get\<close>) raises. The update has
  then already assigned the message time and content (lines 74 and 75); the handler logs
  the failure (line 711) and returns with these two DecisionInfo fields changed.
\<close>

theorem handle_notification_malformed_dict_mutates:
  "handle_notification
       (\<lambda>v. case v of
               PyDict d \<Rightarrow> Inr \<lparr>user_id = dict_get d ''user_id'' PyNone,
                                 user_nickname = dict_get d ''user_nickname'' PyNone\<rparr>
             | _ \<Rightarrow> Inl AttributeError)
       None 0
       \<lparr>decision = DecisionInfo, handler_log = [], triggered = 0\<rparr>
       (Some \<lparr>n_type = NEW_MESSAGE,
              n_data = Some (PyDict [(''time'', PyFloat 5), (''user_info'', PyStr ''x'')])\<rparr>)
     = (\<lparr>decision = DecisionInfo\<lparr>last_message_time := PyFloat 5,
                                   last_message_content := PyStr []\<rparr>,
         handler_log = [(INFO, 705), (ERROR, 711)], triggered = 0\<rparr>, None) \<and>
   DecisionInfo\<lparr>last_message_time := PyFloat 5, last_message_content := PyStr []\<rparr>
     \<noteq> DecisionInfo"
  by (simp add: handle_notification_def handle_notification_body_def handle_new_message_def
      update_from_message_def dict_item_def dict_get_def log_to_def DecisionInfo_def)

text \<open>
  C7, amended: (1) for a notification that is \<^verbatim>\<open>None\<close>, has no \<open>data\<close> attribute or has
  \<^verbatim>\<open>data = None\<close>, the handler logs one error (line 694) and changes nothing else, so no
  DecisionInfo field changes; (2) for a new-message notification whose data is not a
  dictionary, it logs one error (line 701) and changes nothing else; (3) for a
  new-message notification whose dictionary lacks the key \<open>time\<close>, which the update
  reads first, the handler logs, requests no refresh and leaves the DecisionInfo
  unchanged; (4) for every notification, every outcome of \<^verbatim>\<open>UserInfo.from_dict\<close> and of
  \<^verbatim>\<open>trigger_update\<close>, and so also when the DecisionInfo update raises, no exception
  reaches the caller. Nothing is said about the DecisionInfo after an update that fails on
  a dictionary that has a \<open>time\<close>.
\<close>

theorem handle_notification_invalid:
  "((n = None \<or> (\<exists>nt. n = Some nt \<and> (n_data nt = None \<or> n_data nt = Some PyNone))) \<longrightarrow>
      handle_notification from_dict trig now w n
        = (w\<lparr>handler_log := handler_log w @ [(ERROR, 694)]\<rparr>, None)) \<and>
   (\<forall>nt d. n = Some nt \<and> n_type nt = NEW_MESSAGE \<and> n_data nt = Some d \<and> d \<noteq> PyNone \<and>
        (\<forall>m. d \<noteq> PyDict m) \<longrightarrow>
      handle_notification from_dict trig now w n
        = (w\<lparr>handler_log := handler_log w @ [(ERROR, 701)]\<rparr>, None)) \<and>
   (\<forall>nt m. n = Some nt \<and> n_type nt = NEW_MESSAGE \<and> n_data nt = Some (PyDict m) \<and>
        map_of m ''time'' = None \<longrightarrow>
      decision (fst (handle_notification from_dict trig now w n)) = decision w \<and>
      triggered (fst (handle_notification from_dict trig now w n)) = triggered w \<and>
      length (handler_log (fst (handle_notification from_dict trig now w n)))
        > length (handler_log w)) \<and>
   snd (handle_notification from_dict trig now w n) = None"
proof (intro conjI allI impI)
  assume "n = None \<or> (\<exists>nt. n = Some nt \<and> (n_data nt = None \<or> n_data nt = Some PyNone))"
  then show "handle_notification from_dict trig now w n
        = (w\<lparr>handler_log := handler_log w @ [(ERROR, 694)]\<rparr>, None)"
    by (auto simp: handle_notification_def handle_notification_body_def log_to_def)
next
  fix nt d
  assume "n = Some nt \<and> n_type nt = NEW_MESSAGE \<and> n_data nt = Some d \<and> d \<noteq> PyNone \<and>
        (\<forall>m. d \<noteq> PyDict m)"
  then show "handle_notification from_dict trig now w n
        = (w\<lparr>handler_log := handler_log w @ [(ERROR, 701)]\<rparr>, None)"
    by (auto simp: handle_notification_def handle_notification_body_def
        handle_new_message_def log_to_def split: pyval.splits)
next
  fix nt m
  assume h: "n = Some nt \<and> n_type nt = NEW_MESSAGE \<and> n_data nt = Some (PyDict m) \<and>
        map_of m ''time'' = None"
  then show "decision (fst (handle_notification from_dict trig now w n)) = decision w"
    by (auto simp: handle_notification_def handle_notification_body_def
        handle_new_message_def update_from_message_def dict_item_def log_to_def Let_def
        split: pyval.splits prod.splits option.splits)
  from h show "triggered (fst (handle_notification from_dict trig now w n)) = triggered w"
    by (auto simp: handle_notification_def handle_notification_body_def
        handle_new_message_def update_from_message_def dict_item_def log_to_def Let_def
        split: pyval.splits prod.splits option.splits)
  from h show "length (handler_log (fst (handle_notification from_dict trig now w n)))
        > length (handler_log w)"
    by (auto simp: handle_notification_def handle_notification_body_def
        handle_new_message_def update_from_message_def dict_item_def log_to_def Let_def
        split: pyval.splits prod.splits option.splits)
next
  show "snd (handle_notification from_dict trig now w n) = None"
    by (simp add: handle_notification_def split: prod.splits option.splits)
qed

theorem handle_notification_invalid_witness:
  "handle_notification (\<lambda>v. Inl AttributeError) None 0
       \<lparr>decision = DecisionInfo, handler_log = [], triggered = 0\<rparr>
       (Some \<lparr>n_type = NEW_MESSAGE, n_data = Some PyNone\<rparr>)
     = (\<lparr>decision = DecisionInfo, handler_log = [(ERROR, 694)], triggered = 0\<rparr>, None) \<and>
   handle_notification (\<lambda>v. Inl AttributeError) None 0
       \<lparr>decision = DecisionInfo, handler_log = [], triggered = 0\<rparr>
       (Some \<lparr>n_type = NEW_MESSAGE, n_data = Some (PyStr ''hello'')\<rparr>)
     = (\<lparr>decision = DecisionInfo, handler_log = [(ERROR, 701)], triggered = 0\<rparr>, None) \<and>
   decision (fst (handle_notification (\<lambda>v. Inl AttributeError) None 0
       \<lparr>decision = DecisionInfo, handler_log = [], triggered = 0\<rparr>
       (Some \<lparr>n_type = NEW_MESSAGE,
              n_data = Some (PyDict [(''content'', PyStr ''hello'')])\<rparr>)))
     = DecisionInfo"
  using
    handle_notification_invalid [of "Some \<lparr>n_type = NEW_MESSAGE, n_data = Some PyNone\<rparr>"
      "\<lambda>v. Inl AttributeError" None 0
      "\<lparr>decision = DecisionInfo, handler_log = [], triggered = 0\<rparr>"]
    handle_notification_invalid [of
      "Some \<lparr>n_type = NEW_MESSAGE, n_data = Some (PyStr ''hello'')\<rparr>"
      "\<lambda>v. Inl AttributeError" None 0
      "\<lparr>decision = DecisionInfo, handler_log = [], triggered = 0\<rparr>"]
    handle_notification_invalid [of
      "Some \<lparr>n_type = NEW_MESSAGE, n_data = Some (PyDict [(''content'', PyStr ''hello'')])\<rparr>"
      "\<lambda>v. Inl AttributeError" None 0
      "\<lparr>decision = DecisionInfo, handler_log = [], triggered = 0\<rparr>"]
  by simp

section \<open>Properties of the waiter\<close>

lemma wait_loop_exit:
  assumes "k \<le> n"
    and "\<forall>j. k \<le> j \<and> j < n \<longrightarrow> \<not> nma j s \<and> poll_time lag s j - s \<le> 300"
    and "nma n s \<or> poll_time lag s n - s > 300"
  shows "wait_loop nma lag s k (poll_time lag s k) = Some (\<not> nma n s)"
  using assms
proof (induction "n - k" arbitrary: k)
  case 0
  then have "k = n" by simp
  with 0 show ?case by (subst wait_loop.simps) auto
next
  case (Suc d)
  then have kn: "k < n" by simp
  with Suc.prems have nok: "\<not> nma k s" "\<not> poll_time lag s k - s > 300"
    by (auto simp: not_less)
  have "wait_loop nma lag s (Suc k) (poll_time lag s (Suc k)) = Some (\<not> nma n s)"
    using Suc.hyps(1)[of "Suc k"] Suc.hyps(2) Suc.prems kn by auto
  with nok show ?case
    by (subst wait_loop.simps) simp
qed

lemma first_exit_step:
  assumes "\<not> nma k s" "poll_time lag s k - s \<le> 300" "first_exit nma lag s (Suc k) n"
  shows "first_exit nma lag s k n"
  unfolding first_exit_def
proof (intro conjI allI impI)
  from assms(3) show "k \<le> n" by (simp add: first_exit_def)
  from assms(3) show "nma n s \<or> poll_time lag s n - s > 300" by (simp add: first_exit_def)
  fix j assume j: "k \<le> j \<and> j < n"
  show "\<not> nma j s"
  proof (cases "j = k")
    case True with assms(1) show ?thesis by simp
  next
    case False with j assms(3) show ?thesis by (simp add: first_exit_def Suc_le_eq)
  qed
  show "poll_time lag s j - s \<le> 300"
  proof (cases "j = k")
    case True with assms(2) show ?thesis by simp
  next
    case False with j assms(3) show ?thesis by (simp add: first_exit_def Suc_le_eq)
  qed
qed

lemma wait_loop_only_aux:
  assumes "wait_loop nma lag s k t = Some b"
  shows "t = poll_time lag s k \<longrightarrow> (\<exists>n. first_exit nma lag s k n \<and> b = (\<not> nma n s))"
proof (rule wait_loop.raw_induct
    [where P = "\<lambda>nma lag s k t b. t = poll_time lag s k \<longrightarrow>
        (\<exists>n. first_exit nma lag s k n \<and> b = (\<not> nma n s))", OF _ assms])
  fix wl :: "(nat \<Rightarrow> real \<Rightarrow> bool) \<Rightarrow> (nat \<Rightarrow> real) \<Rightarrow> real \<Rightarrow> nat \<Rightarrow> real \<Rightarrow> bool option"
  fix nma lag s k t b
  assume IH: "\<And>nma lag s k t b. wl nma lag s k t = Some b \<Longrightarrow>
      t = poll_time lag s k \<longrightarrow> (\<exists>n. first_exit nma lag s k n \<and> b = (\<not> nma n s))"
    and eq: "(if nma k s then Some False
       else if 300 < t - s then Some True
       else wl nma lag s (Suc k) (t + 1 + lag k)) = Some b"
  show "t = poll_time lag s k \<longrightarrow> (\<exists>n. first_exit nma lag s k n \<and> b = (\<not> nma n s))"
  proof
    assume t: "t = poll_time lag s k"
    show "\<exists>n. first_exit nma lag s k n \<and> b = (\<not> nma n s)"
    proof (cases "nma k s \<or> t - s > 300")
      case True
      with eq have "b = (\<not> nma k s)" by (auto split: if_splits)
      with True t show ?thesis
        by (intro exI[of _ k]) (auto simp: first_exit_def)
    next
      case False
      with eq have "wl nma lag s (Suc k) (t + 1 + lag k) = Some b" by simp
      from IH[OF this] t obtain n where n: "first_exit nma lag s (Suc k) n" "b = (\<not> nma n s)"
        by auto
      from False t have "\<not> nma k s" "poll_time lag s k - s \<le> 300" by (auto simp: not_less)
      from first_exit_step[OF this n(1)] n(2) show ?thesis by blast
    qed
  qed
qed

lemma poll_time_lower:
  "\<forall>k. 0 \<le> lag k \<Longrightarrow> poll_time lag s k \<ge> s + real k"
proof (induction k)
  case 0
  then show ?case by simp
next
  case (Suc k)
  then have "poll_time lag s k \<ge> s + real k" "0 \<le> lag k" by simp_all
  then show ?case by simp
qed


lemma first_exit_0:
  "first_exit nma lag s 0 n \<longleftrightarrow>
     (\<forall>j<n. \<not> nma j s \<and> poll_time lag s j - s \<le> 300) \<and>
     (nma n s \<or> poll_time lag s n - s > 300)"
  by (simp add: first_exit_def)

lemma wait_loop_from_start:
  assumes "\<forall>j<n. \<not> nma j s \<and> poll_time lag s j - s \<le> 300"
    and "nma n s \<or> poll_time lag s n - s > 300"
  shows "wait_loop nma lag s 0 s = Some (\<not> nma n s)"
  using wait_loop_exit[of 0 n nma s lag] assms by simp

lemma wait_loop_terminates:
  assumes "\<forall>k. 0 \<le> lag k"
  shows "\<exists>b. wait_loop nma lag s 0 s = Some b"
proof -
  let ?E = "\<lambda>n. nma n s \<or> poll_time lag s n - s > 300"
  from poll_time_lower[OF assms, of s 301] have "?E 301" by simp
  then have ex: "\<exists>n. ?E n" ..
  define n where "n = (LEAST n. ?E n)"
  from ex have En: "?E n" unfolding n_def by (rule LeastI_ex)
  have "\<forall>j<n. \<not> ?E j" unfolding n_def using not_less_Least by blast
  then have "\<forall>j<n. \<not> nma j s \<and> poll_time lag s j - s \<le> 300"
    by (auto simp: not_less)
  with En wait_loop_from_start[of n nma s lag] show ?thesis by blast
qed

text \<open>
  C3: \<^verbatim>\<open>wait\<close> stores the time of the call as the observer's \<open>waiting_start_time\<close> and
  polls the observer with that same time; between two polls lies one sleep of 1 (the
  poll times are \<open>poll_time\<close>). With \<open>n\<close> the first poll at which the observer reports a
  new message after the start, no earlier poll having seen more than 300 elapse, it
  returns \<open>False\<close> at that poll. With \<open>n\<close> the first poll at which more than 300 have
  elapsed, the observer reporting nothing up to and at that poll, it returns \<open>True\<close>.
  Whenever it returns, it returned in one of these two ways. When no sleep is shorter than
  1 (\<open>lag\<close> is not negative) it does return.
\<close>

theorem wait_returns:
  "(\<forall>n. (\<forall>j<n. \<not> nma j now \<and> poll_time lag now j - now \<le> 300) \<and> nma n now \<longrightarrow>
      wait nma lag now obs = Some (False, obs\<lparr>waiting_start_time := Some now\<rparr>)) \<and>
   (\<forall>n. (\<forall>j<n. \<not> nma j now \<and> poll_time lag now j - now \<le> 300) \<and>
        \<not> nma n now \<and> poll_time lag now n - now > 300 \<longrightarrow>
      wait nma lag now obs = Some (True, obs\<lparr>waiting_start_time := Some now\<rparr>)) \<and>
   (\<forall>timed_out obs'. wait nma lag now obs = Some (timed_out, obs') \<longrightarrow>
      obs' = obs\<lparr>waiting_start_time := Some now\<rparr> \<and>
      (\<exists>n. (\<forall>j<n. \<not> nma j now \<and> poll_time lag now j - now \<le> 300) \<and>
           (if timed_out then \<not> nma n now \<and> poll_time lag now n - now > 300
            else nma n now))) \<and>
   ((\<forall>k. 0 \<le> lag k) \<longrightarrow> (\<exists>r. wait nma lag now obs = Some r))"
proof (intro conjI allI impI)
  fix n
  assume "(\<forall>j<n. \<not> nma j now \<and> poll_time lag now j - now \<le> 300) \<and> nma n now"
  then have "wait_loop nma lag now 0 now = Some (\<not> nma n now)" "nma n now"
    using wait_loop_from_start[of n nma now lag] by simp_all
  then show "wait nma lag now obs = Some (False, obs\<lparr>waiting_start_time := Some now\<rparr>)"
    by (simp add: wait_def)
next
  fix n
  assume "(\<forall>j<n. \<not> nma j now \<and> poll_time lag now j - now \<le> 300) \<and>
        \<not> nma n now \<and> poll_time lag now n - now > 300"
  then have "wait_loop nma lag now 0 now = Some (\<not> nma n now)" "\<not> nma n now"
    using wait_loop_from_start[of n nma now lag] by simp_all
  then show "wait nma lag now obs = Some (True, obs\<lparr>waiting_start_time := Some now\<rparr>)"
    by (simp add: wait_def)
next
  fix timed_out obs'
  assume w: "wait nma lag now obs = Some (timed_out, obs')"
  then show "obs' = obs\<lparr>waiting_start_time := Some now\<rparr>"
    by (auto simp: wait_def)
  from w have "wait_loop nma lag now 0 now = Some timed_out"
    by (auto simp: wait_def)
  from wait_loop_only_aux[OF this] obtain n where
    n: "first_exit nma lag now 0 n" "timed_out = (\<not> nma n now)"
    by auto
  then show "\<exists>n. (\<forall>j<n. \<not> nma j now \<and> poll_time lag now j - now \<le> 300) \<and>
           (if timed_out then \<not> nma n now \<and> poll_time lag now n - now > 300
            else nma n now)"
    by (intro exI[of _ n]) (auto simp: first_exit_0)
next
  assume "\<forall>k. 0 \<le> lag k"
  from wait_loop_terminates[OF this, of nma now]
  show "\<exists>r. wait nma lag now obs = Some r"
    by (auto simp: wait_def)
qed

theorem wait_returns_witness:
  "wait (\<lambda>k t. k = 2) (\<lambda>k. 0) 1000 \<lparr>waiting_start_time = None\<rparr>
     = Some (False, \<lparr>waiting_start_time = Some 1000\<rparr>) \<and>
   wait (\<lambda>k t. False) (\<lambda>k. 400) 1000 \<lparr>waiting_start_time = None\<rparr>
     = Some (True, \<lparr>waiting_start_time = Some 1000\<rparr>)"
proof -
  have a: "(\<forall>j<2. \<not> (\<lambda>(k::nat) (t::real). k = 2) j 1000 \<and> poll_time (\<lambda>k. 0) 1000 j - 1000 \<le> 300)
      \<and> (\<lambda>(k::nat) (t::real). k = 2) 2 1000"
    by (simp add: less_Suc_eq numeral_2_eq_2)
  have b: "(\<forall>j<1. \<not> (\<lambda>k (t::real). False) j 1000 \<and> poll_time (\<lambda>k. 400) 1000 j - 1000 \<le> 300)
      \<and> \<not> (\<lambda>k (t::real). False) 1 1000 \<and> poll_time (\<lambda>k. 400) 1000 1 - 1000 > 300"
    by simp
  from wait_returns [of "\<lambda>k t. k = 2" 1000 "\<lambda>k. 0" "\<lparr>waiting_start_time = None\<rparr>"] a
  have "wait (\<lambda>k t. k = 2) (\<lambda>k. 0) 1000 \<lparr>waiting_start_time = None\<rparr>
     = Some (False, \<lparr>waiting_start_time = None\<rparr>\<lparr>waiting_start_time := Some 1000\<rparr>)"
    by blast
  moreover
  from wait_returns [of "\<lambda>k t. False" 1000 "\<lambda>k. 400" "\<lparr>waiting_start_time = None\<rparr>"] b
  have "wait (\<lambda>k t. False) (\<lambda>k. 400) 1000 \<lparr>waiting_start_time = None\<rparr>
     = Some (True, \<lparr>waiting_start_time = None\<rparr>\<lparr>waiting_start_time := Some 1000\<rparr>)"
    by blast
  ultimately show ?thesis by simp
qed


section \<open>Properties of the action planner\<close>

text \<open>
  C10, as stated: \<^verbatim>\<open>plan\<close> does propagate an exception. The chat history is formatted
  before the \<^verbatim>\<open>try\<close>; on a history message without the key \<open>time\<close> the lookup
  \<^verbatim>\<open>msg["time"]\<close> raises a \<^verbatim>\<open>KeyError\<close> that leaves \<^verbatim>\<open>plan\<close>.
\<close>

theorem plan_raises_on_message_without_time:
  "plan (quiet\<lparr>get_message_history :=
                 (\<lambda>limit. [PyDict [(''processed_plain_text'', PyStr ''hi'')]])\<rparr>)
     ''A'' ''m'' ''r'' [] None = Inl KeyError"
  by (simp add: plan_def action_prompt_def chat_line_of_def py_item_def dict_item_def quiet_def)

text \<open>
  C10, amended: the only exceptions that leave \<^verbatim>\<open>plan\<close> are those raised while the
  prompt is built, before the \<^verbatim>\<open>try\<close>. Whenever \<^verbatim>\<open>plan\<close> returns, its action tag is one
  of the six valid tags. Once the prompt is built: a failing completion request, a failing
  extraction and a result without the item \<open>action\<close> or \<open>reason\<close> give \<open>direct_reply\<close>
  with the fixed reason for errors; an unsuccessful extraction gives \<open>direct_reply\<close> with
  the fixed reason for a parse failure; a successful extraction gives the extracted action
  and reason, the action replaced by \<open>listening\<close> when it is not a valid tag.
\<close>

theorem plan_outcomes:
  "(\<forall>e. plan env goal method reasoning hist di = Inl e \<longleftrightarrow>
        action_prompt env goal method reasoning hist di = Inl e) \<and>
   (\<forall>a r. plan env goal method reasoning hist di = Inr (a, r) \<longrightarrow>
        a \<in> set (map PyStr valid_actions)) \<and>
   (\<forall>p. action_prompt env goal method reasoning hist di = Inr p \<longrightarrow>
      (\<forall>e. generate_response_async env 0 p = Inl e \<longrightarrow>
         plan env goal method reasoning hist di
           = Inr (PyStr ''direct_reply'', PyStr error_reason)) \<and>
      (\<forall>content. generate_response_async env 0 p = Inr content \<longrightarrow>
         (\<forall>e. action_items_from_json env content = Inl e \<longrightarrow>
            plan env goal method reasoning hist di
              = Inr (PyStr ''direct_reply'', PyStr error_reason)) \<and>
         (\<forall>result. action_items_from_json env content = Inr (False, result) \<longrightarrow>
            plan env goal method reasoning hist di
              = Inr (PyStr ''direct_reply'', PyStr json_failed_reason)) \<and>
         (\<forall>result e. action_items_from_json env content = Inr (True, result) \<and>
              (py_item result ''action'' = Inl e \<or> py_item result ''reason'' = Inl e) \<longrightarrow>
            plan env goal method reasoning hist di
              = Inr (PyStr ''direct_reply'', PyStr error_reason)) \<and>
         (\<forall>result a r. action_items_from_json env content = Inr (True, result) \<and>
              py_item result ''action'' = Inr a \<and> py_item result ''reason'' = Inr r \<longrightarrow>
            plan env goal method reasoning hist di
              = Inr (if a \<in> set (map PyStr valid_actions) then a else PyStr ''listening'', r))))"
proof (intro conjI allI impI)
  fix e
  show "plan env goal method reasoning hist di = Inl e \<longleftrightarrow>
        action_prompt env goal method reasoning hist di = Inl e"
    by (auto simp: plan_def split: sum.splits)
next
  fix a r
  assume "plan env goal method reasoning hist di = Inr (a, r)"
  then show "a \<in> set (map PyStr valid_actions)"
    by (auto simp: plan_def plan_try_def valid_actions_def split: sum.splits if_splits)
next
  fix p e
  assume "action_prompt env goal method reasoning hist di = Inr p"
    "generate_response_async env 0 p = Inl e"
  then show "plan env goal method reasoning hist di
           = Inr (PyStr ''direct_reply'', PyStr error_reason)"
    by (simp add: plan_def plan_try_def)
next
  fix p content e
  assume "action_prompt env goal method reasoning hist di = Inr p"
    "generate_response_async env 0 p = Inr content"
    "action_items_from_json env content = Inl e"
  then show "plan env goal method reasoning hist di
           = Inr (PyStr ''direct_reply'', PyStr error_reason)"
    by (simp add: plan_def plan_try_def)
next
  fix p content result
  assume "action_prompt env goal method reasoning hist di = Inr p"
    "generate_response_async env 0 p = Inr content"
    "action_items_from_json env content = Inr (False, result)"
  then show "plan env goal method reasoning hist di
           = Inr (PyStr ''direct_reply'', PyStr json_failed_reason)"
    by (simp add: plan_def plan_try_def)
next
  fix p content result e
  assume "action_prompt env goal method reasoning hist di = Inr p"
    "generate_response_async env 0 p = Inr content"
    "action_items_from_json env content = Inr (True, result) \<and>
       (py_item result ''action'' = Inl e \<or> py_item result ''reason'' = Inl e)"
  then show "plan env goal method reasoning hist di
           = Inr (PyStr ''direct_reply'', PyStr error_reason)"
    by (auto simp: plan_def plan_try_def split: sum.splits)
next
  fix p content result a r
  assume "action_prompt env goal method reasoning hist di = Inr p"
    "generate_response_async env 0 p = Inr content"
    "action_items_from_json env content = Inr (True, result) \<and>
              py_item result ''action'' = Inr a \<and> py_item result ''reason'' = Inr r"
  then show "plan env goal method reasoning hist di
           = Inr (if a \<in> set (map PyStr valid_actions) then a else PyStr ''listening'', r)"
    by (simp add: plan_def plan_try_def)
qed

theorem plan_outcomes_witness:
  "plan quiet ''A'' ''m'' ''r'' [] None = Inr (PyStr ''wait'', PyStr ''r'') \<and>
   plan (quiet\<lparr>action_items_from_json :=
           (\<lambda>content. Inr (True, PyDict [(''action'', PyStr ''dance''), (''reason'', PyStr ''r'')]))\<rparr>)
     ''A'' ''m'' ''r'' [] None = Inr (PyStr ''listening'', PyStr ''r'') \<and>
   plan (quiet\<lparr>generate_response_async := (\<lambda>k p. Inl CollaboratorError)\<rparr>)
     ''A'' ''m'' ''r'' [] None = Inr (PyStr ''direct_reply'', PyStr error_reason) \<and>
   plan (quiet\<lparr>action_items_from_json := (\<lambda>content. Inr (False, PyNone))\<rparr>)
     ''A'' ''m'' ''r'' [] None = Inr (PyStr ''direct_reply'', PyStr json_failed_reason)"
proof -
  let ?p = "ActionPrompt ''A'' ''m'' ''r'' [] False []"
  let ?e2 = "quiet\<lparr>action_items_from_json :=
           (\<lambda>content. Inr (True, PyDict [(''action'', PyStr ''dance''), (''reason'', PyStr ''r'')]))\<rparr>"
  let ?e3 = "quiet\<lparr>generate_response_async := (\<lambda>k p. Inl CollaboratorError)\<rparr>"
  let ?e4 = "quiet\<lparr>action_items_from_json := (\<lambda>content. Inr (False, PyNone))\<rparr>"
  have p1: "action_prompt quiet ''A'' ''m'' ''r'' [] None = Inr ?p"
    and p2: "action_prompt ?e2 ''A'' ''m'' ''r'' [] None = Inr ?p"
    and p3: "action_prompt ?e3 ''A'' ''m'' ''r'' [] None = Inr ?p"
    and p4: "action_prompt ?e4 ''A'' ''m'' ''r'' [] None = Inr ?p"
    by (simp_all add: action_prompt_def decision_info_text_def quiet_def)
  have l1: "generate_response_async quiet 0 ?p = Inr (PyStr ''ok'')"
    and l2: "generate_response_async ?e2 0 ?p = Inr (PyStr ''ok'')"
    and l3: "generate_response_async ?e3 0 ?p = Inl CollaboratorError"
    and l4: "generate_response_async ?e4 0 ?p = Inr (PyStr ''ok'')"
    by (simp_all add: quiet_def)
  have j1: "action_items_from_json quiet (PyStr ''ok'')
        = Inr (True, PyDict [(''action'', PyStr ''wait''), (''reason'', PyStr ''r'')]) \<and>
      py_item (PyDict [(''action'', PyStr ''wait''), (''reason'', PyStr ''r'')]) ''action''
        = Inr (PyStr ''wait'') \<and>
      py_item (PyDict [(''action'', PyStr ''wait''), (''reason'', PyStr ''r'')]) ''reason''
        = Inr (PyStr ''r'')"
    by (simp add: quiet_def py_item_def dict_item_def)
  have j2: "action_items_from_json ?e2 (PyStr ''ok'')
        = Inr (True, PyDict [(''action'', PyStr ''dance''), (''reason'', PyStr ''r'')]) \<and>
      py_item (PyDict [(''action'', PyStr ''dance''), (''reason'', PyStr ''r'')]) ''action''
        = Inr (PyStr ''dance'') \<and>
      py_item (PyDict [(''action'', PyStr ''dance''), (''reason'', PyStr ''r'')]) ''reason''
        = Inr (PyStr ''r'')"
    by (simp add: quiet_def py_item_def dict_item_def)
  have j4: "action_items_from_json ?e4 (PyStr ''ok'') = Inr (False, PyNone)"
    by simp
  from plan_outcomes [of quiet "''A''" "''m''" "''r''" "[]" None] p1 l1 j1
  have "plan quiet ''A'' ''m'' ''r'' [] None
      = Inr (if PyStr ''wait'' \<in> set (map PyStr valid_actions) then PyStr ''wait''
             else PyStr ''listening'', PyStr ''r'')"
    by blast
  then have 1: "plan quiet ''A'' ''m'' ''r'' [] None = Inr (PyStr ''wait'', PyStr ''r'')"
    by (simp add: valid_actions_def)
  from plan_outcomes [of ?e2 "''A''" "''m''" "''r''" "[]" None] p2 l2 j2
  have "plan ?e2 ''A'' ''m'' ''r'' [] None
      = Inr (if PyStr ''dance'' \<in> set (map PyStr valid_actions) then PyStr ''dance''
             else PyStr ''listening'', PyStr ''r'')"
    by blast
  then have 2: "plan ?e2 ''A'' ''m'' ''r'' [] None = Inr (PyStr ''listening'', PyStr ''r'')"
    by (simp add: valid_actions_def)
  from plan_outcomes [of ?e3 "''A''" "''m''" "''r''" "[]" None] p3 l3
  have 3: "plan ?e3 ''A'' ''m'' ''r'' [] None = Inr (PyStr ''direct_reply'', PyStr error_reason)"
    by blast
  from plan_outcomes [of ?e4 "''A''" "''m''" "''r''" "[]" None] p4 l4 j4
  have 4: "plan ?e4 ''A'' ''m'' ''r'' [] None
      = Inr (PyStr ''direct_reply'', PyStr json_failed_reason)"
    by blast
  from 1 2 3 4 show ?thesis by blast
qed

section \<open>Properties of the send path\<close>

text \<open>
  C5: \<^verbatim>\<open>_send_reply\<close> returns at once, with the conversation unchanged and without an
  exception, when the generated reply is empty (or \<^verbatim>\<open>None\<close>) and when there is no
  latest message; so the outbox changes only when there is a reply and a latest message.
  When both are there and the latest message converts, then whatever
  \<^verbatim>\<open>send_message\<close> does, also when it raises, no exception leaves \<^verbatim>\<open>_send_reply\<close>, the
  state is \<open>ANALYZING\<close> and the loop's \<open>should_continue\<close> flag is untouched.
\<close>

theorem send_reply_guards:
  "(\<not> truthy (generated_reply c) \<longrightarrow> send_reply env c = (c, None)) \<and>
   (get_message_history env (Some 1) = [] \<longrightarrow> send_reply env c = (c, None)) \<and>
   (outbox (fst (send_reply env c)) \<noteq> outbox c \<longrightarrow>
      truthy (generated_reply c) \<and> get_message_history env (Some 1) \<noteq> []) \<and>
   (\<forall>m. truthy (generated_reply c) \<and> get_message_history env (Some 1) \<noteq> [] \<and>
        convert_to_message env (hd (get_message_history env (Some 1))) = Inr m \<longrightarrow>
      snd (send_reply env c) = None \<and>
      state (fst (send_reply env c)) = ANALYZING \<and>
      should_continue (fst (send_reply env c)) = should_continue c \<and>
      outbox (fst (send_reply env c)) =
        fst (send_message env (outbox c) (conv_chat_stream c) (generated_reply c) (Some m)))"
  by (auto simp: send_reply_def Let_def split: sum.splits prod.splits)

theorem send_reply_guards_witness:
  "send_reply quiet fresh = (fresh, None) \<and>
   send_reply (quiet\<lparr>get_message_history := (\<lambda>limit. [])\<rparr>)
       (fresh\<lparr>generated_reply := PyStr ''hi''\<rparr>)
     = (fresh\<lparr>generated_reply := PyStr ''hi''\<rparr>, None) \<and>
   snd (send_reply
       (quiet\<lparr>get_message_history :=
                 (\<lambda>limit. [PyDict [(''message_id'', PyStr ''m1''), (''time'', PyFloat 5)]]),
              send_message_REST := (\<lambda>end_point content. Some CollaboratorError)\<rparr>)
       (fresh\<lparr>generated_reply := PyStr ''hi''\<rparr>)) = None \<and>
   state (fst (send_reply
       (quiet\<lparr>get_message_history :=
                 (\<lambda>limit. [PyDict [(''message_id'', PyStr ''m1''), (''time'', PyFloat 5)]]),
              send_message_REST := (\<lambda>end_point content. Some CollaboratorError)\<rparr>)
       (fresh\<lparr>generated_reply := PyStr ''hi''\<rparr>))) = ANALYZING"
proof -
  let ?env = "quiet\<lparr>get_message_history :=
                 (\<lambda>limit. [PyDict [(''message_id'', PyStr ''m1''), (''time'', PyFloat 5)]]),
              send_message_REST := (\<lambda>end_point content. Some CollaboratorError)\<rparr>"
  let ?c = "fresh\<lparr>generated_reply := PyStr ''hi''\<rparr>"
  let ?m = "\<lparr>message_id = PyStr ''m1'', msg_chat_stream = \<lparr>platform = PyStr ''qq''\<rparr>,
            msg_time = PyFloat 5,
            msg_user_info = \<lparr>user_id = PyStr ''u1'', user_nickname = PyStr ''ann''\<rparr>,
            processed_plain_text = PyStr [], detailed_plain_text = PyStr []\<rparr>"
  have a: "\<not> truthy (generated_reply fresh)"
    by (simp add: fresh_def)
  have b: "get_message_history (quiet\<lparr>get_message_history := (\<lambda>limit. [])\<rparr>) (Some 1) = []"
    by simp
  have c: "truthy (generated_reply ?c) \<and> get_message_history ?env (Some 1) \<noteq> [] \<and>
      convert_to_message ?env (hd (get_message_history ?env (Some 1))) = Inr ?m"
    by (simp add: quiet_def fresh_def convert_to_message_def py_get_def py_item_def
        dict_get_def dict_item_def)
  from send_reply_guards [of fresh quiet] a
  have 1: "send_reply quiet fresh = (fresh, None)" by blast
  from send_reply_guards [of ?c "quiet\<lparr>get_message_history := (\<lambda>limit. [])\<rparr>"] b
  have 2: "send_reply (quiet\<lparr>get_message_history := (\<lambda>limit. [])\<rparr>) ?c = (?c, None)"
    by blast
  from send_reply_guards [of ?c ?env] c
  have 3: "snd (send_reply ?env ?c) = None \<and> state (fst (send_reply ?env ?c)) = ANALYZING"
    by blast
  from 1 2 3 show ?thesis by blast
qed

section \<open>Properties of the direct reply\<close>

text \<open>The reply checker is read by \<^verbatim>\<open>check_reply\<close> only: replacing it changes none of
  the other operations.\<close>

lemma chat_line_of_checker [simp]:
  "chat_line_of (env\<lparr>reply_checker_check := f\<rparr>) msg = chat_line_of env msg"
  by (simp add: chat_line_of_def cong: sum.case_cong if_cong)

lemma chat_history_text_checker [simp]:
  "chat_history_text (env\<lparr>reply_checker_check := f\<rparr>) msgs = chat_history_text env msgs"
  by (induction msgs) (simp_all cong: sum.case_cong)

lemma convert_to_message_checker [simp]:
  "convert_to_message (env\<lparr>reply_checker_check := f\<rparr>) msg = convert_to_message env msg"
  by (simp add: convert_to_message_def cong: sum.case_cong)

lemma convert_all_checker [simp]:
  "convert_all (env\<lparr>reply_checker_check := f\<rparr>) msgs = convert_all env msgs"
  by (induction msgs) (simp_all cong: sum.case_cong)

lemma generate_checker [simp]:
  "generate (env\<lparr>reply_checker_check := f\<rparr>) g h k p = generate env g h k p"
  by (simp add: generate_def cong: sum.case_cong option.case_cong)

lemma send_message_checker [simp]:
  "send_message (env\<lparr>reply_checker_check := f\<rparr>) out cs content r
     = send_message env out cs content r"
  by (simp add: send_message_def Let_def cong: option.case_cong if_cong)

lemma send_reply_checker [simp]:
  "send_reply (env\<lparr>reply_checker_check := f\<rparr>) c = send_reply env c"
  by (simp add: send_reply_def Let_def cong: sum.case_cong if_cong)

text \<open>
  C6: in the \<open>direct_reply\<close> action, when the history converts and the generator returns
  a candidate, then for every verdict that the reply checker returns the outcome of the
  action is the outcome of \<^verbatim>\<open>_send_reply\<close> on the conversation holding that candidate
  as its generated reply. The right-hand side does not mention the verdict: a rejection
  or a request to replan neither keeps the candidate from the send path nor leads to a
  second generation.
\<close>

theorem direct_reply_sends_regardless:
  assumes "convert_all env (get_message_history env (Some 30)) = Inr msgs"
    and "generate env (current_goal c) (current_method c) msgs (knowledge_cache c)
           = Inr candidate"
  shows "handle_action (env\<lparr>reply_checker_check := (\<lambda>reply goal retry_count. Inr verdict)\<rparr>)
           ''direct_reply'' why c
       = Some (send_reply env
           (c\<lparr>action_history :=
                record_action (action_history c)
                  \<lparr>entry_action = ''direct_reply'', entry_reason = why,
                   entry_time = now_strftime env\<rparr>,
              state := GENERATING, generated_reply := candidate\<rparr>))"
  using assms
  by (cases verdict) (simp add: handle_action_def handle_direct_reply_def check_reply_def Let_def)

theorem direct_reply_sends_regardless_witness:
  "handle_action
     (quiet\<lparr>get_message_history :=
               (\<lambda>limit. [PyDict [(''message_id'', PyStr ''m1''), (''time'', PyFloat 5)]]),
            reply_checker_check :=
               (\<lambda>reply goal retry_count. Inr (PyBool False, PyStr ''bad'', PyBool True))\<rparr>)
     ''direct_reply'' (PyStr ''r'') fresh
   = Some (fresh\<lparr>action_history :=
                   [\<lparr>entry_action = ''direct_reply'', entry_reason = PyStr ''r'',
                     entry_time = ''12:00:00''\<rparr>],
                 state := ANALYZING,
                 generated_reply := PyStr ''ok'',
                 outbox :=
                   [(PyStr ''http://localhost'', PyStr ''ok'',
                     Some \<lparr>message_id = PyStr ''m1'',
                           msg_chat_stream = \<lparr>platform = PyStr ''qq''\<rparr>,
                           msg_time = PyFloat 5,
                           msg_user_info =
                             \<lparr>user_id = PyStr ''u1'', user_nickname = PyStr ''ann''\<rparr>,
                           processed_plain_text = PyStr [],
                           detailed_plain_text = PyStr []\<rparr>)]\<rparr>,
           None)"
proof -
  let ?env = "quiet\<lparr>get_message_history :=
               (\<lambda>limit. [PyDict [(''message_id'', PyStr ''m1''), (''time'', PyFloat 5)]])\<rparr>"
  let ?m = "\<lparr>message_id = PyStr ''m1'', msg_chat_stream = \<lparr>platform = PyStr ''qq''\<rparr>,
            msg_time = PyFloat 5,
            msg_user_info = \<lparr>user_id = PyStr ''u1'', user_nickname = PyStr ''ann''\<rparr>,
            processed_plain_text = PyStr [], detailed_plain_text = PyStr []\<rparr>"
  have a: "convert_all ?env (get_message_history ?env (Some 30)) = Inr [?m]"
    by (simp add: quiet_def convert_to_message_def py_get_def py_item_def
        dict_get_def dict_item_def)
  have b: "generate ?env (current_goal fresh) (current_method fresh) [?m]
      (knowledge_cache fresh) = Inr (PyStr ''ok'')"
    by (simp add: quiet_def fresh_def generate_def chat_line_of_def py_get_def py_item_def
        dict_get_def dict_item_def)
  have c: "send_reply ?env
      (fresh\<lparr>action_history :=
                record_action (action_history fresh)
                  \<lparr>entry_action = ''direct_reply'', entry_reason = PyStr ''r'',
                   entry_time = now_strftime ?env\<rparr>,
              state := GENERATING, generated_reply := PyStr ''ok''\<rparr>)
      = (fresh\<lparr>action_history :=
                   [\<lparr>entry_action = ''direct_reply'', entry_reason = PyStr ''r'',
                     entry_time = ''12:00:00''\<rparr>],
                 state := ANALYZING,
                 generated_reply := PyStr ''ok'',
                 outbox := [(PyStr ''http://localhost'', PyStr ''ok'', Some ?m)]\<rparr>, None)"
    by (simp add: quiet_def fresh_def send_reply_def send_message_def convert_to_message_def
        py_get_def py_item_def dict_get_def dict_item_def record_action_def)
  from direct_reply_sends_regardless [OF a b, of "(PyBool False, PyStr ''bad'', PyBool True)"
      "PyStr ''r''"] c
  show ?thesis by simp
qed

section \<open>Properties of the judge action\<close>

text \<open>
  C4 at the scenario of one alternative goal: the goal list holds the active goal \<open>A\<close>
  and one alternative \<open>B\<close>, and the judgment is achieved and not stopping.
  \<^verbatim>\<open>analyze_conversation\<close> removes \<open>A\<close>, which leaves the single goal \<open>B\<close>;
  \<^verbatim>\<open>get_alternative_goals\<close> then skips the first goal of the list once more and returns
  no goal. The handler does not switch: the active goal is still \<open>A\<close>. The stop path is
  not taken.
\<close>

theorem judge_one_alternative_not_switched:
  "handle_action quiet ''judge_conversation'' (PyStr ''r'')
     (fresh\<lparr>analyzer_goals := [(''A'', ''m'', ''r''), (''B'', ''m2'', ''r2'')]\<rparr>)
   = Some (fresh\<lparr>action_history :=
                   [\<lparr>entry_action = ''judge_conversation'', entry_reason = PyStr ''r'',
                     entry_time = ''12:00:00''\<rparr>],
                 state := JUDGING,
                 analyzer_goals := [(''B'', ''m2'', ''r2'')],
                 goal_achieved := True, stop_conversation := False, reason := ''done''\<rparr>,
           None) \<and>
   current_goal fresh = ''A'' \<and> should_continue fresh \<and>
   judge_items_from_json quiet (PyStr ''ok'') = Inr (True, True, False, ''done'')"
  by (simp add: quiet_def fresh_def handle_action_def handle_judge_conversation_def
      analyze_conversation_def get_alternative_goals_def stop_path_def record_action_def
      pop_at_def Let_def)

text \<open>With two alternatives the handler does switch, to the second of the goals that
  remain: \<open>B\<close>, the first one, is passed over.\<close>

lemma judge_two_alternatives_skips_first:
  "handle_action quiet ''judge_conversation'' (PyStr ''r'')
     (fresh\<lparr>analyzer_goals :=
              [(''A'', ''m'', ''r''), (''B'', ''m2'', ''r2''), (''C'', ''m3'', ''r3'')]\<rparr>)
   = Some (fresh\<lparr>action_history :=
                   [\<lparr>entry_action = ''judge_conversation'', entry_reason = PyStr ''r'',
                     entry_time = ''12:00:00''\<rparr>],
                 state := JUDGING,
                 analyzer_goals := [(''B'', ''m2'', ''r2''), (''C'', ''m3'', ''r3'')],
                 goal_achieved := True, stop_conversation := False, reason := ''done'',
                 current_goal := ''C'', current_method := ''m3'', goal_reasoning := ''r3''\<rparr>,
           None)"
  by (simp add: quiet_def fresh_def handle_action_def handle_judge_conversation_def
      analyze_conversation_def get_alternative_goals_def stop_path_def record_action_def
      pop_at_def Let_def)

section \<open>The action history after an action\<close>

lemma send_reply_history:
  "action_history (fst (send_reply env c)) = action_history c"
  by (simp add: send_reply_def Let_def split: sum.splits prod.splits)

lemma handle_direct_reply_history:
  "action_history (fst (handle_direct_reply env c)) = action_history c"
  by (simp add: handle_direct_reply_def Let_def send_reply_history split: sum.splits prod.splits)

lemma handle_fetch_knowledge_history:
  "action_history (fst (handle_fetch_knowledge env c)) = action_history c"
  by (simp add: handle_fetch_knowledge_def Let_def split: sum.splits prod.splits)

lemma handle_rethink_goal_history:
  "action_history (handle_rethink_goal env c) = action_history c"
  by (simp add: handle_rethink_goal_def Let_def split: prod.splits)

lemma handle_judge_conversation_history:
  "action_history (fst (handle_judge_conversation env c)) = action_history c"
  by (simp add: handle_judge_conversation_def stop_path_def Let_def split: sum.splits prod.splits)

lemma send_timeout_message_history:
  "action_history (send_timeout_message env c) = action_history c"
  by (simp add: send_timeout_message_def Let_def split: sum.splits)

lemma handle_waiting_history:
  "handle_waiting env st c = Some (c', exc) \<Longrightarrow> action_history c' = action_history c"
  by (auto simp: handle_waiting_def stop_path_def send_timeout_message_history Let_def
      split: option.splits prod.splits if_splits)

lemma handle_action_history:
  assumes "handle_action env action why c = Some (c', exc)"
  shows "action_history c' = record_action (action_history c)
      \<lparr>entry_action = action, entry_reason = why, entry_time = now_strftime env\<rparr>"
proof -
  let ?c0 = "c\<lparr>action_history := record_action (action_history c)
      \<lparr>entry_action = action, entry_reason = why, entry_time = now_strftime env\<rparr>\<rparr>"
  have h0: "action_history ?c0 = record_action (action_history c)
      \<lparr>entry_action = action, entry_reason = why, entry_time = now_strftime env\<rparr>"
    by simp
  consider (d) "action = ''direct_reply''" | (f) "action = ''fetch_knowledge''"
    | (r) "action = ''rethink_goal''" | (j) "action = ''judge_conversation''"
    | (l) "action = ''listening''"
    | (w) "action \<noteq> ''direct_reply''" "action \<noteq> ''fetch_knowledge''"
        "action \<noteq> ''rethink_goal''" "action \<noteq> ''judge_conversation''"
        "action \<noteq> ''listening''"
    by blast
  then show ?thesis
  proof cases
    case d
    with assms have "c' = fst (handle_direct_reply env ?c0)"
      by (auto simp: handle_action_def Let_def)
    then show ?thesis using handle_direct_reply_history[of env ?c0] h0 by simp
  next
    case f
    with assms have "c' = fst (handle_fetch_knowledge env ?c0)"
      by (auto simp: handle_action_def Let_def)
    then show ?thesis using handle_fetch_knowledge_history[of env ?c0] h0 by simp
  next
    case r
    with assms have "c' = handle_rethink_goal env ?c0"
      by (auto simp: handle_action_def Let_def)
    then show ?thesis using handle_rethink_goal_history[of env ?c0] h0 by simp
  next
    case j
    with assms have "c' = fst (handle_judge_conversation env ?c0)"
      by (auto simp: handle_action_def Let_def)
    then show ?thesis using handle_judge_conversation_history[of env ?c0] h0 by simp
  next
    case l
    with assms have "handle_waiting env LISTENING ?c0 = Some (c', exc)"
      by (auto simp: handle_action_def Let_def)
    from handle_waiting_history[OF this] h0 show ?thesis by simp
  next
    case w
    with assms have "handle_waiting env WAITING ?c0 = Some (c', exc)"
      by (auto simp: handle_action_def Let_def)
    from handle_waiting_history[OF this] h0 show ?thesis by simp
  qed
qed

text \<open>
  C9: whenever \<^verbatim>\<open>_handle_action\<close> is left, normally or by an exception, for any action
  tag and any behaviour of the collaborators, the action history has at most 10 entries;
  it is the end of the old history followed by the entry of this action, so the entries
  dropped are the oldest and the order is kept; and it holds as many of these most recent
  entries as fit in 10.
\<close>

theorem action_history_bounded:
  assumes "handle_action env action why c = Some (c', exc)"
  shows "length (action_history c') \<le> 10 \<and>
    suffix (action_history c')
      (action_history c @ [\<lparr>entry_action = action, entry_reason = why,
                              entry_time = now_strftime env\<rparr>]) \<and>
    length (action_history c') = min 10 (Suc (length (action_history c)))"
  using handle_action_history[OF assms] record_action_keeps_last_ten by simp

theorem action_history_bounded_witness:
  "length (action_history (fst (the (handle_action quiet ''rethink_goal'' (PyStr ''r'')
      (fresh\<lparr>action_history :=
          replicate 10 \<lparr>entry_action = ''wait'', entry_reason = PyNone,
                         entry_time = ''11:59:00''\<rparr>\<rparr>))))) = 10"
proof -
  let ?c = "fresh\<lparr>action_history :=
          replicate 10 \<lparr>entry_action = ''wait'', entry_reason = PyNone,
                         entry_time = ''11:59:00''\<rparr>\<rparr>"
  have "\<exists>r. handle_action quiet ''rethink_goal'' (PyStr ''r'') ?c = Some r"
    by (simp add: handle_action_def Let_def)
  then obtain c' exc where eq: "handle_action quiet ''rethink_goal'' (PyStr ''r'') ?c = Some (c', exc)"
    by force
  from action_history_bounded [OF eq]
  have "length (action_history c') = min 10 (Suc (length (action_history ?c)))"
    by blast
  with eq show ?thesis by simp
qed

end
